theory Spec2Isabelle
  imports Main "HOL-Library.AList" "HOL-Library.Multiset"
begin

section \<open>Python values shared by the scripts\<close>

text \<open>
  Exceptions are values. Every constructor stands for a class derived from Python's
  \<open>Exception\<close>: \<open>OSError\<close> covers \<open>FileNotFoundError\<close> and \<open>IsADirectoryError\<close>,
  \<open>OtherException\<close> is any further subclass of \<open>Exception\<close> (the plain
  \<open>Exception("Command failed")\<close> of \<open>run_command\<close>, a connection error of the HTTP
  client, a parser error). The argument is the message \<open>str(e)\<close>.
\<close>

datatype py_error =
    HTTPError string
  | ValueError string
  | IndexError string
  | AttributeError string
  | OSError string
  | OtherException string

section \<open>ann_TM_Vec.py: the batch generator\<close>

text \<open>
  \<open>y_enc = np.zeros((num_classes)); y_enc[y_t[val]] = 1\<close>. Labels are the class indices
  that \<open>LabelEncoder.transform\<close> returns, natural numbers; an index that is not below
  \<open>num_classes\<close> raises IndexError. The entries 0.0 and 1.0 are written as integers.
\<close>

definition one_hot :: "nat \<Rightarrow> nat \<Rightarrow> py_error + int list" where
  "one_hot num_classes label =
     (if label < num_classes then Inr ((replicate num_classes 0)[label := 1])
      else Inl (IndexError ''index out of bounds''))"

text \<open>
  The body of \<open>for j in range(batch_size)\<close>: the first argument counts the iterations
  still to run, \<open>val\<close> is the generator's cursor, the pair is \<open>(X_batch, y_batch)\<close>.
\<close>

fun fill_batch ::
  "'a list \<Rightarrow> nat list \<Rightarrow> nat \<Rightarrow> nat \<Rightarrow> nat \<Rightarrow> 'a list \<times> int list list \<Rightarrow>
   py_error + (('a list \<times> int list list) \<times> nat)" where
  "fill_batch X_t y_t num_classes 0 val (X_batch, y_batch) = Inr ((X_batch, y_batch), val)"
| "fill_batch X_t y_t num_classes (Suc j) val (X_batch, y_batch) =
     (let val = (if val = length X_t then 0 else val) in
      if length X_t \<le> val then Inl (IndexError ''index out of bounds'')
      else if length y_t \<le> val then Inl (IndexError ''index out of bounds'')
      else (case one_hot num_classes (y_t ! val) of
              Inl e \<Rightarrow> Inl e
            | Inr y_enc \<Rightarrow>
                fill_batch X_t y_t num_classes j (val + 1)
                  (X_batch @ [X_t ! val], y_batch @ [y_enc])))"

text \<open>
  The generator is the state machine of its \<open>while True\<close> loop: \<open>bm_yield\<close> resumes it
  at cursor \<open>val\<close> and returns what the \<open>k\<close>-th following \<open>yield\<close> produces (counting from
  0), or the exception that ends the generator before. \<open>bm_generator\<close> starts at
  \<open>val = 0\<close>.
\<close>

fun bm_yield ::
  "'a list \<Rightarrow> nat list \<Rightarrow> nat \<Rightarrow> nat \<Rightarrow> nat \<Rightarrow> nat \<Rightarrow> py_error + ('a list \<times> int list list)" where
  "bm_yield X_t y_t num_classes batch_size val 0 =
     (case fill_batch X_t y_t num_classes batch_size val ([], []) of
        Inl e \<Rightarrow> Inl e
      | Inr (batch, val') \<Rightarrow> Inr batch)"
| "bm_yield X_t y_t num_classes batch_size val (Suc k) =
     (case fill_batch X_t y_t num_classes batch_size val ([], []) of
        Inl e \<Rightarrow> Inl e
      | Inr (batch, val') \<Rightarrow> bm_yield X_t y_t num_classes batch_size val' k)"

definition bm_generator ::
  "'a list \<Rightarrow> nat list \<Rightarrow> nat \<Rightarrow> nat \<Rightarrow> nat \<Rightarrow> py_error + ('a list \<times> int list list)" where
  "bm_generator X_t y_t num_classes batch_size k = bm_yield X_t y_t num_classes batch_size 0 k"

text \<open>
  The specification's one-hot vector, written from its words: length \<open>num_classes\<close>, a
  single 1 at position \<open>label\<close>.
\<close>

definition one_hot_spec :: "nat \<Rightarrow> nat \<Rightarrow> int list" where
  "one_hot_spec num_classes label = map (\<lambda>i. if i = label then 1 else 0) [0..<num_classes]"

section \<open>Python built-ins used by get_3Di_sequences.py\<close>

text \<open>
  \<open>s.replace(old, new)\<close> for a non-empty \<open>old\<close>: every non-overlapping occurrence, found
  from the left, is replaced. The script only calls it with \<open>'X'\<close> and \<open>'.pdb'\<close>; for an
  empty \<open>old\<close> this function returns \<open>s\<close> unchanged (Python would interleave \<open>new\<close>).
\<close>

function py_replace :: "string \<Rightarrow> string \<Rightarrow> string \<Rightarrow> string" where
  "py_replace old new s =
     (if s = [] then []
      else if old \<noteq> [] \<and> take (length old) s = old
           then new @ py_replace old new (drop (length old) s)
      else hd s # py_replace old new (tl s))"
  by pat_completeness auto
termination
  by (relation "measure (\<lambda>(old, new, s). length s)") (auto simp: neq_Nil_conv)

declare py_replace.simps [simp del]

text \<open>\<open>str(i)\<close> for an integer: its decimal digits, with a minus sign below zero.\<close>

definition digit_char :: "nat \<Rightarrow> char" where
  "digit_char d = ''0123456789'' ! d"

function str_nat :: "nat \<Rightarrow> string" where
  "str_nat n = (if n < 10 then [digit_char n] else str_nat (n div 10) @ [digit_char (n mod 10)])"
  by pat_completeness auto
termination
  by (relation "measure id") auto

declare str_nat.simps [simp del]

definition py_str :: "int \<Rightarrow> string" where
  "py_str i = (if i < 0 then CHR ''-'' # str_nat (nat (- i)) else str_nat (nat i))"

text \<open>
  A Python \<open>str\<close> is the list of its code points, each below 256 (a \<open>char\<close> is read as the
  code point of its number); strings with other code points are outside the model.

  \<open>int(s)\<close> for a string, base 10: surrounding whitespace is stripped, one sign is
  allowed, then come decimal digits, single underscores allowed between two digits.
  Anything else raises ValueError, and so do more than 4300 digits (CPython's default
  limit for the conversion). The whitespace \<open>int\<close> strips is space, tab, line feed,
  vertical tab, form feed and carriage return, and of the code points from 128 on the
  two Unicode spaces U+0085 and U+00A0; the separators 0x1C to 0x1F are not stripped.
\<close>

definition py_isspace :: "char \<Rightarrow> bool" where
  "py_isspace c = (c \<in> set [CHR '' '', CHR 0x09, CHR 0x0A, CHR 0x0B, CHR 0x0C, CHR 0x0D,
                              CHR 0x85, CHR 0xA0])"

definition py_strip :: "string \<Rightarrow> string" where
  "py_strip s = rev (dropWhile py_isspace (rev (dropWhile py_isspace s)))"

definition is_digit :: "char \<Rightarrow> bool" where
  "is_digit c = (c \<in> set ''0123456789'')"

definition digit_val :: "char \<Rightarrow> nat" where
  "digit_val c = of_char c - 48"

fun parse_digits :: "nat \<Rightarrow> string \<Rightarrow> nat option" where
  "parse_digits acc [] = Some acc"
| "parse_digits acc [c] = (if is_digit c then Some (acc * 10 + digit_val c) else None)"
| "parse_digits acc (c # d # ds) =
     (if c = CHR ''_''
      then (if is_digit d then parse_digits (acc * 10 + digit_val d) ds else None)
      else if is_digit c then parse_digits (acc * 10 + digit_val c) (d # ds)
      else None)"

definition int_literal_error :: "string \<Rightarrow> py_error" where
  "int_literal_error s = ValueError (''invalid literal for int() with base 10: '' @ s)"

definition int_max_str_digits :: nat where
  "int_max_str_digits = 4300"

definition py_int :: "string \<Rightarrow> py_error + int" where
  "py_int s =
     (let t = py_strip s;
          neg = (t \<noteq> [] \<and> hd t = CHR ''-'');
          u = (if t \<noteq> [] \<and> (hd t = CHR ''-'' \<or> hd t = CHR ''+'') then tl t else t)
      in case u of
           [] \<Rightarrow> Inl (int_literal_error s)
         | d # ds \<Rightarrow>
             if is_digit d
             then (case parse_digits (digit_val d) ds of
                     None \<Rightarrow> Inl (int_literal_error s)
                   | Some n \<Rightarrow>
                       if int_max_str_digits < length (filter is_digit u)
                       then Inl (ValueError ''Exceeds the limit (4300 digits) for integer string conversion'')
                       else Inr (if neg then - int n else int n))
             else Inl (int_literal_error s))"

text \<open>\<open>s[i]\<close> for a non-negative constant index: IndexError beyond the end.\<close>

definition py_index :: "string \<Rightarrow> nat \<Rightarrow> py_error + char" where
  "py_index s i = (if i < length s then Inr (s ! i) else Inl (IndexError ''string index out of range''))"

text \<open>\<open>str(e)\<close>: the message of an exception.\<close>

fun err_msg :: "py_error \<Rightarrow> string" where
  "err_msg (HTTPError m) = m"
| "err_msg (ValueError m) = m"
| "err_msg (IndexError m) = m"
| "err_msg (AttributeError m) = m"
| "err_msg (OSError m) = m"
| "err_msg (OtherException m) = m"

text \<open>The two steps of \<open>os.path.basename(p).split('.')[0]\<close>.\<close>

definition os_path_basename :: "string \<Rightarrow> string" where
  "os_path_basename p = rev (takeWhile (\<lambda>c. c \<noteq> CHR ''/'') (rev p))"

definition split_dot_first :: "string \<Rightarrow> string" where
  "split_dot_first s = takeWhile (\<lambda>c. c \<noteq> CHR ''.'') s"

section \<open>The world of get_3Di_sequences.py\<close>

text \<open>
  A parsed PDB structure as Bio.PDB presents it to the script: models with an \<open>id\<close>,
  chains with an \<open>id\<close>, residues with an \<open>id\<close> (hetero flag, sequence number, insertion
  code; the hetero flag is \<open>' '\<close> for a standard residue) and a \<open>resname\<close>. Membership of
  a residue in a Python set goes by its full id (model id, chain id, residue id).
\<close>

type_synonym residue_id = "string \<times> int \<times> string"

record residue =
  rid :: residue_id
  resname :: string

record chain =
  cid :: char
  residues :: "residue list"

record model =
  mid :: int
  chains :: "chain list"

type_synonym pdb_structure = "model list"

type_synonym full_id = "int \<times> char \<times> residue_id"

text \<open>
  The file system is a flat table from path strings to nodes; paths are compared as
  strings. A directory exists when it is a \<open>Dir\<close> node or when some node lies below it;
  the current directory and the root always exist. Permissions and device errors are
  outside the model. Besides the file system the world holds what \<open>print\<close> wrote and the
  URLs of the HTTP GET requests issued so far.
\<close>

datatype node = File string | Dir

record world =
  fs :: "(string \<times> node) list"
  stdout :: "string list"
  http_log :: "string list"

definition print :: "string \<Rightarrow> world \<Rightarrow> world" where
  "print line w = w\<lparr>stdout := stdout w @ [line]\<rparr>"

definition fs_read :: "string \<Rightarrow> world \<Rightarrow> py_error + string" where
  "fs_read p w =
     (case map_of (fs w) p of
        None \<Rightarrow> Inl (OSError (''No such file or directory: '' @ p))
      | Some Dir \<Rightarrow> Inl (OSError (''Is a directory: '' @ p))
      | Some (File c) \<Rightarrow> Inr c)"

text \<open>\<open>os.path.join(a, b)\<close> and \<open>os.path.dirname(p)\<close> on POSIX.\<close>

definition os_path_join :: "string \<Rightarrow> string \<Rightarrow> string" where
  "os_path_join a b =
     (if b \<noteq> [] \<and> hd b = CHR ''/'' then b
      else if a = [] \<or> last a = CHR ''/'' then a @ b
      else a @ ''/'' @ b)"

definition os_path_dirname :: "string \<Rightarrow> string" where
  "os_path_dirname p =
     (let head = rev (dropWhile (\<lambda>c. c \<noteq> CHR ''/'') (rev p))
      in if head \<noteq> [] \<and> list_ex (\<lambda>c. c \<noteq> CHR ''/'') head
         then rev (dropWhile (\<lambda>c. c = CHR ''/'') (rev head))
         else head)"

text \<open>\<open>below d p\<close>: the path \<open>p\<close> lies below the directory \<open>d\<close>.\<close>

definition below :: "string \<Rightarrow> string \<Rightarrow> bool" where
  "below d p =
     (let pre = os_path_join d []
      in take (length pre) p = pre \<and> length pre < length p)"

definition dir_exists :: "string \<Rightarrow> world \<Rightarrow> bool" where
  "dir_exists d w =
     (d = [] \<or> d = ''.'' \<or> d = ''/'' \<or> map_of (fs w) d = Some Dir \<or>
      list_ex (\<lambda>(p, n). below d p) (fs w))"

text \<open>\<open>open(p, 'w')\<close>, one \<open>write\<close> and the close: the directory of \<open>p\<close> must exist.\<close>

definition fs_write :: "string \<Rightarrow> string \<Rightarrow> world \<Rightarrow> py_error + world" where
  "fs_write p c w =
     (case map_of (fs w) p of
        Some Dir \<Rightarrow> Inl (OSError (''Is a directory: '' @ p))
      | _ \<Rightarrow>
          if dir_exists (os_path_dirname p) w
          then Inr (w\<lparr>fs := AList.update p (File c) (fs w)\<rparr>)
          else Inl (OSError (''No such file or directory: '' @ p)))"

definition os_remove :: "string \<Rightarrow> world \<Rightarrow> py_error + world" where
  "os_remove p w =
     (case map_of (fs w) p of
        None \<Rightarrow> Inl (OSError (''No such file or directory: '' @ p))
      | Some Dir \<Rightarrow> Inl (OSError (''Is a directory: '' @ p))
      | Some (File c) \<Rightarrow> Inr (w\<lparr>fs := AList.delete p (fs w)\<rparr>))"

text \<open>
  \<open>os.makedirs(p, exist_ok=True)\<close>: the directory and its missing ancestors are made
  (the ancestors exist once the node \<open>p\<close> does); a file at \<open>p\<close> or at an ancestor of
  \<open>p\<close> is an error.
\<close>

definition ancestors :: "string \<Rightarrow> string list" where
  "ancestors p = map (\<lambda>i. take i p) (filter (\<lambda>i. p ! i = CHR ''/'') [1..<length p])"

definition os_makedirs :: "string \<Rightarrow> world \<Rightarrow> py_error + world" where
  "os_makedirs p w =
     (if list_ex (\<lambda>a. case map_of (fs w) a of Some (File c) \<Rightarrow> True | _ \<Rightarrow> False) (ancestors p)
      then Inl (OSError (''Not a directory: '' @ p))
      else case map_of (fs w) p of
             None \<Rightarrow> Inr (w\<lparr>fs := AList.update p Dir (fs w)\<rparr>)
           | Some Dir \<Rightarrow> Inr w
           | Some (File c) \<Rightarrow> Inl (OSError (''File exists: '' @ p)))"

text \<open>
  \<open>os.listdir(d)\<close>: the first path component, below \<open>d\<close>, of every node that lies below
  \<open>d\<close>, each name once.
\<close>

definition entry_name :: "string \<Rightarrow> string \<Rightarrow> string option" where
  "entry_name d p =
     (let n = takeWhile (\<lambda>c. c \<noteq> CHR ''/'') (drop (length (os_path_join d [])) p)
      in if below d p \<and> n \<noteq> [] then Some n else None)"

definition os_listdir :: "string \<Rightarrow> world \<Rightarrow> py_error + string list" where
  "os_listdir d w =
     (case map_of (fs w) d of
        Some (File c) \<Rightarrow> Inl (OSError (''Not a directory: '' @ d))
      | _ \<Rightarrow>
          if dir_exists d w
          then Inr (remdups (List.map_filter (\<lambda>(p, n). entry_name d p) (fs w)))
          else Inl (OSError (''No such file or directory: '' @ d)))"

text \<open>
  What the script gets from outside, taken as parameters: the HTTP server's answer to a
  GET, Bio.PDB's parser (from the text of a file) and writer (\<open>PDBIO.save\<close> under a
  \<open>Select\<close>, here the predicate on full residue ids), \<open>Bio.SeqUtils.seq1\<close>, the text
  pandas writes for a list of result records, pandas' CSV reader, and the shell that
  runs a command on the file system and returns the completed process.
\<close>

record response =
  status_code :: nat
  reason :: string
  resp_text :: string

record completed_process =
  returncode :: int
  proc_stdout :: string
  proc_stderr :: string

record row =
  col_Unnamed_0 :: int
  col_Sequence :: string
  col_Domain :: string

record result =
  sequence_id :: int
  pdb_file :: "string option"

record extern =
  http_get :: "string \<Rightarrow> py_error + response"
  parse_pdb :: "string \<Rightarrow> py_error + pdb_structure"
  save_pdb :: "pdb_structure \<Rightarrow> (full_id \<Rightarrow> bool) \<Rightarrow> string"
  seq1 :: "string \<Rightarrow> string"
  df_to_csv :: "result list \<Rightarrow> string"
  read_csv :: "string \<Rightarrow> py_error + row list"
  shell :: "string \<Rightarrow> (string \<times> node) list \<Rightarrow> completed_process \<times> (string \<times> node) list"

text \<open>\<open>response.raise_for_status()\<close>: HTTPError for a status from 400 to 599.\<close>

definition raise_for_status :: "string \<Rightarrow> response \<Rightarrow> py_error + unit" where
  "raise_for_status url r =
     (if 400 \<le> status_code r \<and> status_code r < 500
      then Inl (HTTPError (str_nat (status_code r) @ '' Client Error: '' @ reason r @ '' for url: '' @ url))
      else if 500 \<le> status_code r \<and> status_code r < 600
      then Inl (HTTPError (str_nat (status_code r) @ '' Server Error: '' @ reason r @ '' for url: '' @ url))
      else Inr ())"

text \<open>\<open>PDBParser().get_structure('structure', path)\<close>: read the file, parse its text.\<close>

definition get_structure :: "extern \<Rightarrow> string \<Rightarrow> world \<Rightarrow> py_error + pdb_structure" where
  "get_structure E path w =
     (case fs_read path w of Inl e \<Rightarrow> Inl e | Inr txt \<Rightarrow> parse_pdb E txt)"

section \<open>get_3Di_sequences.py: trimming and verifying a structure\<close>

definition clean_sequence :: "string \<Rightarrow> string" where
  "clean_sequence sequence = py_replace ''X'' [] sequence"

definition compare_sequences :: "string \<Rightarrow> string \<Rightarrow> bool" where
  "compare_sequences csv_sequence pdb_sequence = (csv_sequence = pdb_sequence)"

text \<open>\<open>TrimSelect(residues).accept_residue(residue)\<close>; the set is kept as the list of the
  full ids added to it, only membership is ever asked.\<close>

definition accept_residue :: "full_id list \<Rightarrow> full_id \<Rightarrow> bool" where
  "accept_residue residues' residue = (residue \<in> set residues')"

text \<open>
  The loop \<open>for residue in chain\<close> of \<open>trim_pdb\<close>, on the residues still to visit of chain
  \<open>c\<close> of model \<open>m\<close>. The state is \<open>(seq_residues, seq_index, untrimmed_sequence)\<close>; the
  \<open>break\<close> leaves the residue loop only, the state goes on to the next chain.
\<close>

fun trim_residue_loop ::
  "extern \<Rightarrow> string \<Rightarrow> int \<Rightarrow> char \<Rightarrow> residue list \<Rightarrow> full_id list \<times> nat \<times> string \<Rightarrow>
   full_id list \<times> nat \<times> string" where
  "trim_residue_loop E sequence m c [] st = st"
| "trim_residue_loop E sequence m c (r # rs) (seq_residues, seq_index, untrimmed_sequence) =
     (let res_name = seq1 E (resname r);
          untrimmed_sequence = untrimmed_sequence @ res_name;
          hit = (seq_index < length sequence \<and> res_name = [sequence ! seq_index]);
          seq_residues = (if hit then seq_residues @ [(m, c, rid r)] else seq_residues);
          seq_index = (if hit then seq_index + 1 else seq_index)
      in if seq_index = length sequence then (seq_residues, seq_index, untrimmed_sequence)
         else trim_residue_loop E sequence m c rs (seq_residues, seq_index, untrimmed_sequence))"

definition trim_scan ::
  "extern \<Rightarrow> string \<Rightarrow> char \<Rightarrow> int \<Rightarrow> pdb_structure \<Rightarrow> full_id list \<times> nat \<times> string" where
  "trim_scan E sequence chain_id model_id structure' =
     fold (\<lambda>model' st.
             if mid model' = model_id
             then fold (\<lambda>chain' st.
                          if cid chain' = chain_id
                          then trim_residue_loop E sequence (mid model') (cid chain') (residues chain') st
                          else st)
                       (chains model') st
             else st)
          structure' ([], 0, [])"

text \<open>The loops of \<open>extract_sequence_from_pdb\<close>; the state is
  \<open>(sequence, chain_model_found)\<close>.\<close>

definition extract_scan :: "extern \<Rightarrow> char \<Rightarrow> int \<Rightarrow> pdb_structure \<Rightarrow> string \<times> bool" where
  "extract_scan E chain_id model_id structure' =
     fold (\<lambda>model' st.
             if mid model' = model_id
             then fold (\<lambda>chain' (sequence, chain_model_found).
                          if cid chain' = chain_id
                          then (fold (\<lambda>residue sequence.
                                        if fst (rid residue) = '' ''
                                        then sequence @ seq1 E (resname residue)
                                        else sequence)
                                     (residues chain') sequence,
                                True)
                          else (sequence, chain_model_found))
                       (chains model') st
             else st)
          structure' ([], False)"

definition extract_sequence_from_pdb ::
  "extern \<Rightarrow> string \<Rightarrow> char \<Rightarrow> int \<Rightarrow> world \<Rightarrow> py_error + string" where
  "extract_sequence_from_pdb E pdb_file_path chain_id model_id w =
     (case get_structure E pdb_file_path w of
        Inl e \<Rightarrow> Inl e
      | Inr structure' \<Rightarrow>
          (case extract_scan E chain_id model_id structure' of
             (sequence, chain_model_found) \<Rightarrow>
               if \<not> chain_model_found
               then Inl (ValueError (''Chain '' @ [chain_id] @ '' of model '' @ py_str model_id
                                      @ '' not found in PDB file '' @ pdb_file_path))
               else Inr sequence))"

definition mismatch_message :: "string \<Rightarrow> string \<Rightarrow> string \<Rightarrow> string \<Rightarrow> string" where
  "mismatch_message pdb_file_path sequence pdb_sequence untrimmed_sequence =
     ''Sequence mismatch for PDB ID '' @ pdb_file_path @ ''.'' @ [CHR 0x0A]
     @ ''CSV sequence: '' @ sequence @ [CHR 0x0A]
     @ ''PDB trimmed sequence: '' @ pdb_sequence @ [CHR 0x0A]
     @ ''Untrimmed PDB sequence: '' @ untrimmed_sequence"

definition trim_pdb ::
  "extern \<Rightarrow> string \<Rightarrow> string \<Rightarrow> char \<Rightarrow> int \<Rightarrow> world \<Rightarrow> (py_error + string) \<times> world" where
  "trim_pdb E pdb_file_path sequence chain_id model_id w =
     (case get_structure E pdb_file_path w of
        Inl e \<Rightarrow> (Inl e, w)
      | Inr structure' \<Rightarrow>
          (case trim_scan E sequence chain_id model_id structure' of
             (seq_residues, seq_index, untrimmed_sequence) \<Rightarrow>
               (let trimmed_pdb_file_path = py_replace ''.pdb'' ''_trimmed.pdb'' pdb_file_path
                in case fs_write trimmed_pdb_file_path
                         (save_pdb E structure' (accept_residue seq_residues)) w of
                    Inl e \<Rightarrow> (Inl e, w)
                  | Inr w1 \<Rightarrow>
                      (case extract_sequence_from_pdb E trimmed_pdb_file_path chain_id model_id w1 of
                         Inl e \<Rightarrow> (Inl e, w1)
                       | Inr pdb_sequence \<Rightarrow>
                           if \<not> compare_sequences (clean_sequence sequence) pdb_sequence
                           then (Inl (ValueError (mismatch_message pdb_file_path sequence
                                                    pdb_sequence untrimmed_sequence)), w1)
                           else (Inr trimmed_pdb_file_path, w1)))))"

section \<open>get_3Di_sequences.py: one download task\<close>

text \<open>The body of the \<open>try\<close> block of \<open>download_and_trim_pdb\<close>.\<close>

definition download_try ::
  "extern \<Rightarrow> int \<Rightarrow> string \<Rightarrow> string \<Rightarrow> char \<Rightarrow> int \<Rightarrow> string \<Rightarrow> string \<Rightarrow> world \<Rightarrow>
   (py_error + result) \<times> world" where
  "download_try E sequence_id' sequence pdb_id chain' model_id url output_dir w =
     (let w0 = w\<lparr>http_log := http_log w @ [url]\<rparr>
      in case http_get E url of
           Inl e \<Rightarrow> (Inl e, w0)
         | Inr response' \<Rightarrow>
             (case raise_for_status url response' of
                Inl e \<Rightarrow> (Inl e, w0)
              | Inr u \<Rightarrow>
                  (let pdb_file_path =
                        os_path_join output_dir (py_str sequence_id' @ ''_'' @ pdb_id @ ''.pdb'')
                   in case fs_write pdb_file_path (resp_text response') w0 of
                       Inl e \<Rightarrow> (Inl e, w0)
                     | Inr w1 \<Rightarrow>
                         (case trim_pdb E pdb_file_path sequence chain' model_id w1 of
                            (Inl e, w2) \<Rightarrow> (Inl e, w2)
                          | (Inr trimmed_pdb_file_path, w2) \<Rightarrow>
                              (case os_remove pdb_file_path w2 of
                                 Inl e \<Rightarrow> (Inl e, w2)
                               | Inr w3 \<Rightarrow>
                                   (Inr \<lparr>sequence_id = sequence_id',
                                         pdb_file = Some trimmed_pdb_file_path\<rparr>, w3))))))"

text \<open>The three \<open>except\<close> clauses, in their order: what is printed for the exception.\<close>

fun handler_line :: "py_error \<Rightarrow> string" where
  "handler_line (HTTPError m) = ''HTTP request failed: '' @ m"
| "handler_line (ValueError m) = m"
| "handler_line e = ''Other error occurred: '' @ err_msg e"

definition download_and_trim_pdb ::
  "extern \<Rightarrow> row \<Rightarrow> string \<Rightarrow> world \<Rightarrow> (py_error + result) \<times> world" where
  "download_and_trim_pdb E row' output_dir w =
     (let sequence_id' = col_Unnamed_0 row';
          sequence = clean_sequence (col_Sequence row');
          domain = col_Domain row';
          pdb_id = take 4 domain
      in case py_index domain 4 of
           Inl e \<Rightarrow> (Inl e, w)
         | Inr chain' \<Rightarrow>
             (case py_int (drop 5 domain) of
                Inl e \<Rightarrow> (Inl e, w)
              | Inr model_id \<Rightarrow>
                  (let url = ''https://files.rcsb.org/download/'' @ pdb_id @ ''.pdb''
                   in case download_try E sequence_id' sequence pdb_id chain' model_id url output_dir w of
                       (Inr r, w') \<Rightarrow> (Inr r, w')
                     | (Inl e, w') \<Rightarrow>
                         (Inr \<lparr>sequence_id = sequence_id', pdb_file = None\<rparr>,
                          print (handler_line e) w'))))"

section \<open>get_3Di_sequences.py: the pool, foldseek and the clean-up\<close>

text \<open>
  \<open>ThreadPoolExecutor(max_workers=20)\<close> with \<open>as_completed\<close>, at the grain of whole tasks:
  rows wait in \<open>queue\<close> in the order of submission, at most \<open>max_workers\<close> of them are
  \<open>running\<close>, and the scheduler picks which running task completes next (\<open>picks\<close>, one
  number per completion, taken modulo the number of running tasks; 0 when the list is
  used up). A task takes effect on the world when it completes. The outcomes are listed
  in completion order. \<open>peak\<close> is a ghost value for the statements about the pool: the
  largest number of tasks that were running at once.
\<close>

definition max_workers :: nat where
  "max_workers = 20"

function run_pool ::
  "extern \<Rightarrow> string \<Rightarrow> nat list \<Rightarrow> row list \<Rightarrow> row list \<Rightarrow> (py_error + result) list \<Rightarrow> nat \<Rightarrow> world \<Rightarrow>
   (py_error + result) list \<times> nat \<times> world" where
  "run_pool E output_dir picks queue running outcomes peak w =
     (if queue \<noteq> [] \<and> length running < max_workers
      then run_pool E output_dir picks (tl queue) (running @ [hd queue]) outcomes
             (max peak (length running + 1)) w
      else if running = [] then (outcomes, peak, w)
      else (let i = (case picks of [] \<Rightarrow> 0 | p # ps \<Rightarrow> p mod length running);
                r = download_and_trim_pdb E (running ! i) output_dir w
            in run_pool E output_dir (tl picks) queue (take i running @ drop (Suc i) running)
                 (outcomes @ [fst r]) peak (snd r)))"
  by pat_completeness auto
termination
  by (relation "measure (\<lambda>(E, output_dir, picks, queue, running, outcomes, peak, w).
                           2 * length queue + length running)")
     (auto simp: neq_Nil_conv split: list.splits)

declare run_pool.simps [simp del]

text \<open>
  The loop over \<open>as_completed(futures)\<close>: \<open>future.result()\<close> returns the task's record or
  raises the task's exception again, which leaves the loop and the function (the pool
  has let every task finish by then).
\<close>

fun collect_results :: "(py_error + result) list \<Rightarrow> result list \<Rightarrow> py_error + result list" where
  "collect_results [] results = Inr results"
| "collect_results (Inl e # futures) results = Inl e"
| "collect_results (Inr r # futures) results = collect_results futures (results @ [r])"

definition run_command :: "extern \<Rightarrow> string \<Rightarrow> world \<Rightarrow> (py_error + string) \<times> world" where
  "run_command E command w =
     (case shell E command (fs w) of
        (result', fs') \<Rightarrow>
          if returncode result' \<noteq> 0
          then (Inl (OtherException ''Command failed''),
                print (proc_stderr result') (print (''Error running command: '' @ command) (w\<lparr>fs := fs'\<rparr>)))
          else (Inr (proc_stdout result'), w\<lparr>fs := fs'\<rparr>))"

text \<open>Lines 134 to 147 of \<open>process_dataset\<close>: the downloads and the results CSV.\<close>

definition process_dataset_download ::
  "extern \<Rightarrow> nat list \<Rightarrow> row list \<Rightarrow> string \<Rightarrow> world \<Rightarrow> (py_error + result list) \<times> world" where
  "process_dataset_download E picks data output_dir w =
     (case os_makedirs output_dir w of
        Inl e \<Rightarrow> (Inl e, w)
      | Inr w0 \<Rightarrow>
          (case run_pool E output_dir picks data [] [] 0 w0 of
             (futures, peak, w1) \<Rightarrow>
               (case collect_results futures [] of
                  Inl e \<Rightarrow> (Inl e, w1)
                | Inr results \<Rightarrow>
                    (let output_csv = os_path_join output_dir ''directly_saved_pdb_idx.csv''
                     in case fs_write output_csv (df_to_csv E results) w1 of
                         Inl e \<Rightarrow> (Inl e, w1)
                       | Inr w2 \<Rightarrow>
                           (Inr results,
                            print (''Download completed and results saved to '' @ output_csv) w2)))))"

text \<open>Lines 149 to 156: the three foldseek commands inside \<open>try\<close>, with the handler.\<close>

definition process_dataset_foldseek :: "extern \<Rightarrow> string \<Rightarrow> string \<Rightarrow> string \<Rightarrow> world \<Rightarrow> world" where
  "process_dataset_foldseek E output_dir query_db query_db_ss_fasta w =
     (case run_command E (''foldseek createdb '' @ output_dir @ '' '' @ query_db) w of
        (Inl e, w1) \<Rightarrow> print (''An error occurred: '' @ err_msg e) w1
      | (Inr out1, w1) \<Rightarrow>
          (case run_command E (''foldseek lndb '' @ query_db @ ''_h '' @ query_db @ ''_ss_h'') w1 of
             (Inl e, w2) \<Rightarrow> print (''An error occurred: '' @ err_msg e) w2
           | (Inr out2, w2) \<Rightarrow>
               (case run_command E (''foldseek convert2fasta '' @ query_db @ ''_ss '' @ query_db_ss_fasta) w2 of
                  (Inl e, w3) \<Rightarrow> print (''An error occurred: '' @ err_msg e) w3
                | (Inr out3, w3) \<Rightarrow> print (''FASTA file created at '' @ query_db_ss_fasta) w3)))"

text \<open>Lines 158 to 165: the removals; the first one that raises ends the function.\<close>

fun remove_listed :: "string \<Rightarrow> string list \<Rightarrow> world \<Rightarrow> (py_error + unit) \<times> world" where
  "remove_listed output_dir [] w = (Inr (), w)"
| "remove_listed output_dir (file # files) w =
     (case os_remove (os_path_join output_dir file) w of
        Inl e \<Rightarrow> (Inl e, w)
      | Inr w1 \<Rightarrow> remove_listed output_dir files w1)"

definition process_dataset_cleanup :: "string \<Rightarrow> string \<Rightarrow> world \<Rightarrow> (py_error + unit) \<times> world" where
  "process_dataset_cleanup output_dir query_db w =
     (case os_remove (query_db @ ''_a3m'') w of
        Inl e \<Rightarrow> (Inl e, w)
      | Inr w1 \<Rightarrow>
          (case os_remove (query_db @ ''_ss'') w1 of
             Inl e \<Rightarrow> (Inl e, w1)
           | Inr w2 \<Rightarrow>
               (case os_remove (query_db @ ''_ss_h'') w2 of
                  Inl e \<Rightarrow> (Inl e, w2)
                | Inr w3 \<Rightarrow>
                    (case os_remove (query_db @ ''_h'') w3 of
                       Inl e \<Rightarrow> (Inl e, w3)
                     | Inr w4 \<Rightarrow>
                         (case os_listdir output_dir w4 of
                            Inl e \<Rightarrow> (Inl e, w4)
                          | Inr files \<Rightarrow> remove_listed output_dir files w4)))))"

definition process_dataset ::
  "extern \<Rightarrow> nat list \<Rightarrow> row list \<Rightarrow> string \<Rightarrow> string \<Rightarrow> string \<Rightarrow> world \<Rightarrow>
   (py_error + unit) \<times> world" where
  "process_dataset E picks data output_dir query_db query_db_ss_fasta w =
     (case process_dataset_download E picks data output_dir w of
        (Inl e, w1) \<Rightarrow> (Inl e, w1)
      | (Inr results, w1) \<Rightarrow>
          process_dataset_cleanup output_dir query_db
            (process_dataset_foldseek E output_dir query_db query_db_ss_fasta w1))"

section \<open>get_3Di_sequences.py: main\<close>

text \<open>The value of \<open>args.dataset\<close> that argparse has accepted, and \<open>dataset_map\<close>.\<close>

datatype dataset_choice = DS_all | DS_test | DS_train | DS_validation

definition datasets_to_process :: "dataset_choice \<Rightarrow> string list" where
  "datasets_to_process d =
     (case d of
        DS_all \<Rightarrow> [''./data/Dataset/csv/Test.csv'', ''./data/Dataset/csv/Train.csv'',
                   ''./data/Dataset/csv/Validation.csv'']
      | DS_test \<Rightarrow> [''./data/Dataset/csv/Test.csv'']
      | DS_train \<Rightarrow> [''./data/Dataset/csv/Train.csv'']
      | DS_validation \<Rightarrow> [''./data/Dataset/csv/Validation.csv''])"

text \<open>
  The body of \<open>for csv_file in datasets_to_process\<close>. The pair \<open>picks\<close> holds the
  scheduler's choices for the first and the second call of \<open>process_dataset\<close>. Writing
  the merged file follows the two nested \<open>with\<close> blocks: the file is created empty, then
  holds the first text, then both.
\<close>

definition process_csv ::
  "extern \<Rightarrow> nat list \<times> nat list \<Rightarrow> string \<Rightarrow> world \<Rightarrow> (py_error + unit) \<times> world" where
  "process_csv E picks csv_file w =
     (case fs_read csv_file w of
        Inl e \<Rightarrow> (Inl e, w)
      | Inr txt \<Rightarrow>
     (case read_csv E txt of
        Inl e \<Rightarrow> (Inl e, w)
      | Inr data \<Rightarrow>
     let dataset_name = split_dot_first (os_path_basename csv_file)
     in if dataset_name = ''Train''
        then
         (let half_index = length data div 2;
              data_first_half = take half_index data;
              data_second_half = drop half_index data;
              output_dir_first = ''./data/pdb_files/'' @ dataset_name @ ''_first'';
              query_db_first = ''./data/pdb_files/'' @ dataset_name @ ''_first_queryDB'';
              query_db_ss_fasta_first = ''./data/Dataset/3Di/'' @ dataset_name @ ''_first.fasta'';
              output_dir_second = ''./data/pdb_files/'' @ dataset_name @ ''_second'';
              query_db_second = ''./data/pdb_files/'' @ dataset_name @ ''_second_queryDB'';
              query_db_ss_fasta_second = ''./data/Dataset/3Di/'' @ dataset_name @ ''_second.fasta''
          in case process_dataset E (fst picks) data_first_half output_dir_first query_db_first
                    query_db_ss_fasta_first w of
               (Inl e, w1) \<Rightarrow> (Inl e, w1)
             | (Inr u1, w1) \<Rightarrow>
          (case process_dataset E (snd picks) data_second_half output_dir_second query_db_second
                    query_db_ss_fasta_second w1 of
               (Inl e, w2) \<Rightarrow> (Inl e, w2)
             | (Inr u2, w2) \<Rightarrow>
         (let final_fasta_path = ''./data/Dataset/3Di/'' @ dataset_name @ ''.fasta''
          in case fs_write final_fasta_path [] w2 of
               Inl e \<Rightarrow> (Inl e, w2)
             | Inr w3 \<Rightarrow>
          (case fs_read query_db_ss_fasta_first w3 of
               Inl e \<Rightarrow> (Inl e, w3)
             | Inr first_text \<Rightarrow>
          (case fs_write final_fasta_path first_text w3 of
               Inl e \<Rightarrow> (Inl e, w3)
             | Inr w4 \<Rightarrow>
          (case fs_read query_db_ss_fasta_second w4 of
               Inl e \<Rightarrow> (Inl e, w4)
             | Inr second_text \<Rightarrow>
          (case fs_write final_fasta_path (first_text @ second_text) w4 of
               Inl e \<Rightarrow> (Inl e, w4)
             | Inr w5 \<Rightarrow>
          (case os_remove query_db_ss_fasta_first w5 of
               Inl e \<Rightarrow> (Inl e, w5)
             | Inr w6 \<Rightarrow>
          (case os_remove query_db_ss_fasta_second w6 of
               Inl e \<Rightarrow> (Inl e, w6)
             | Inr w7 \<Rightarrow>
                 (Inr (), print (''Merged FASTA file created at '' @ final_fasta_path) w7))))))))))
        else
          let output_dir = ''./data/pdb_files/'' @ dataset_name;
              query_db = ''./data/pdb_files/'' @ dataset_name @ ''_queryDB'';
              query_db_ss_fasta = ''./data/Dataset/3Di/'' @ dataset_name @ ''.fasta''
          in process_dataset E (fst picks) data output_dir query_db query_db_ss_fasta w))"

fun main_loop ::
  "extern \<Rightarrow> (string \<Rightarrow> nat list \<times> nat list) \<Rightarrow> string list \<Rightarrow> world \<Rightarrow> (py_error + unit) \<times> world" where
  "main_loop E sched [] w = (Inr (), w)"
| "main_loop E sched (csv_file # rest) w =
     (case process_csv E (sched csv_file) csv_file w of
        (Inl e, w1) \<Rightarrow> (Inl e, w1)
      | (Inr u, w1) \<Rightarrow> main_loop E sched rest w1)"

definition main ::
  "extern \<Rightarrow> (string \<Rightarrow> nat list \<times> nat list) \<Rightarrow> dataset_choice \<Rightarrow> world \<Rightarrow> (py_error + unit) \<times> world" where
  "main E sched dataset w = main_loop E sched (datasets_to_process dataset) w"

section \<open>predict_embed.py: main\<close>

text \<open>
  The parser of \<open>main\<close> declares two options: \<open>--model\<close> (choices ProtT5, ProstT5,
  default ProtT5) and \<open>--input_type\<close> (choices AA, AA+3Di, default AA). \<open>parse_args\<close>
  takes the value given for each option on the command line, if any, and returns the
  namespace, whose attributes are the declared options; \<open>None\<close> stands for argparse
  rejecting a value and ending the process.
\<close>

type_synonym namespace = "(string \<times> string) list"

definition parse_args :: "string option \<Rightarrow> string option \<Rightarrow> namespace option" where
  "parse_args model_arg input_type_arg =
     (let model' = (case model_arg of None \<Rightarrow> ''ProtT5'' | Some v \<Rightarrow> v);
          input_type = (case input_type_arg of None \<Rightarrow> ''AA'' | Some v \<Rightarrow> v)
      in if model' \<in> set [''ProtT5'', ''ProstT5''] \<and> input_type \<in> set [''AA'', ''AA+3Di'']
         then Some [(''model'', model'), (''input_type'', input_type)]
         else None)"

definition getattr :: "namespace \<Rightarrow> string \<Rightarrow> py_error + string" where
  "getattr args name =
     (case map_of args name of
        None \<Rightarrow> Inl (AttributeError (''Namespace object has no attribute '' @ name))
      | Some v \<Rightarrow> Inr v)"

text \<open>
  \<open>embed_sequence\<close> and \<open>embed_3Di\<close> run the embedding models and foldseek; \<open>main\<close> only
  sequences them, so they are parameters here: actions on the world that return or
  raise.
\<close>

definition main_predict_embed ::
  "(world \<Rightarrow> (py_error + unit) \<times> world) \<Rightarrow> (string \<Rightarrow> world \<Rightarrow> (py_error + unit) \<times> world) \<Rightarrow>
   string option \<Rightarrow> string option \<Rightarrow> world \<Rightarrow> ((py_error + unit) \<times> world) option" where
  "main_predict_embed embed_sequence embed_3Di model_arg input_type_arg w =
     (case parse_args model_arg input_type_arg of
        None \<Rightarrow> None
      | Some args \<Rightarrow>
          Some (case getattr args ''input_type'' of
                  Inl e \<Rightarrow> (Inl e, w)
                | Inr input_type \<Rightarrow>
                    if input_type = ''AA'' then embed_sequence w
                    else if input_type = ''AA+3Di''
                    then (case embed_sequence w of
                            (Inl e, w1) \<Rightarrow> (Inl e, w1)
                          | (Inr u, w1) \<Rightarrow>
                              (case getattr args ''pdb_path'' of
                                 Inl e \<Rightarrow> (Inl e, w1)
                               | Inr pdb_path \<Rightarrow> embed_3Di pdb_path w1))
                    else (Inr (), print ''Invalid input type'' w)))"

section \<open>logreg_prott5.py: loading a split\<close>

text \<open>
  A two-dimensional array is its number of columns and its rows; \<open>len\<close> is the number
  of rows. \<open>np.concatenate((A, B), axis=0)\<close> raises ValueError when the numbers of
  columns differ.
\<close>

record 'a ndarray =
  width :: nat
  rows :: "'a list list"

definition np_concatenate :: "'a ndarray \<Rightarrow> 'a ndarray \<Rightarrow> py_error + 'a ndarray" where
  "np_concatenate A B =
     (if width A = width B then Inr \<lparr>width = width A, rows = rows A @ rows B\<rparr>
      else Inl (ValueError ''all the input array dimensions except for the concatenation axis must match exactly''))"

text \<open>\<open>for i in range(n): y.append('other')\<close>.\<close>

fun append_other :: "nat \<Rightarrow> string list \<Rightarrow> string list" where
  "append_other 0 y = y"
| "append_other (Suc n) y = append_other n (y @ [''other''])"

text \<open>
  One block of the script (it is written three times, for train, validation and test):
  \<open>y\<close> is the SF column of the labels CSV, \<open>X\<close> the SF embeddings, \<open>X_other\<close> the
  embeddings of the other class.
\<close>

definition load_split ::
  "string list \<Rightarrow> 'a ndarray \<Rightarrow> 'a ndarray \<Rightarrow> py_error + ('a ndarray \<times> string list)" where
  "load_split y X X_other =
     (case np_concatenate X X_other of
        Inl e \<Rightarrow> Inl e
      | Inr X' \<Rightarrow> Inr (X', append_other (length (rows X_other)) y))"

definition logreg_prott5_load ::
  "string list \<times> 'a ndarray \<times> 'a ndarray \<Rightarrow> string list \<times> 'a ndarray \<times> 'a ndarray \<Rightarrow>
   string list \<times> 'a ndarray \<times> 'a ndarray \<Rightarrow>
   py_error + (('a ndarray \<times> string list) \<times> ('a ndarray \<times> string list) \<times> ('a ndarray \<times> string list))" where
  "logreg_prott5_load train val test =
     (case train of (y_train, X_train, X_train_other) \<Rightarrow>
      case val of (y_val, X_val, X_val_other) \<Rightarrow>
      case test of (y_test, X_test, X_test_other) \<Rightarrow>
        (case load_split y_train X_train X_train_other of
           Inl e \<Rightarrow> Inl e
         | Inr tr \<Rightarrow>
             (case load_split y_val X_val X_val_other of
                Inl e \<Rightarrow> Inl e
              | Inr va \<Rightarrow>
                  (case load_split y_test X_test X_test_other of
                     Inl e \<Rightarrow> Inl e
                   | Inr te \<Rightarrow> Inr (tr, va, te)))))"

text \<open>
  Row alignment as the specification words it: as many labels as embeddings, the SF
  labels in CSV order on the SF embeddings, then the label \<open>other\<close> on every embedding
  of the other archive.
\<close>

definition row_aligned ::
  "string list \<Rightarrow> 'a ndarray \<Rightarrow> 'a ndarray \<Rightarrow> 'a ndarray \<times> string list \<Rightarrow> bool" where
  "row_aligned y X X_other split =
     (case split of (X', y') \<Rightarrow>
        length (rows X') = length y' \<and>
        (\<forall>i<length y. rows X' ! i = rows X ! i \<and> y' ! i = y ! i) \<and>
        (\<forall>i<length (rows X_other).
           rows X' ! (length y + i) = rows X_other ! i \<and> y' ! (length y + i) = ''other''))"

section \<open>A small concrete world for the examples\<close>

text \<open>
  A toy text format stands in for PDB files in the examples: a file is a run of
  4-character records, a hetero flag and a 3-letter residue name, all read into chain A
  of model 0 and numbered from 1; an empty file has no model. The toy writer prints the
  records of the residues the selection accepts.
\<close>

fun demo_residues :: "int \<Rightarrow> string \<Rightarrow> residue list" where
  "demo_residues n (h # a # b # c # rest) =
     \<lparr>rid = ([h], n, '' ''), resname = [a, b, c]\<rparr> # demo_residues (n + 1) rest"
| "demo_residues n rest = []"

definition demo_parse :: "string \<Rightarrow> py_error + pdb_structure" where
  "demo_parse txt =
     (if txt = [] then Inr []
      else Inr [\<lparr>mid = 0, chains = [\<lparr>cid = CHR ''A'', residues = demo_residues 1 txt\<rparr>]\<rparr>])"

definition demo_save :: "pdb_structure \<Rightarrow> (full_id \<Rightarrow> bool) \<Rightarrow> string" where
  "demo_save structure' select =
     concat (map (\<lambda>model'. concat (map (\<lambda>chain'. concat (map (\<lambda>residue.
        if select (mid model', cid chain', rid residue) then fst (rid residue) @ resname residue else [])
        (residues chain'))) (chains model'))) structure')"

definition demo_seq1 :: "string \<Rightarrow> string" where
  "demo_seq1 s =
     (if s = ''ALA'' then ''A'' else if s = ''GLY'' then ''G'' else if s = ''CYS'' then ''C''
      else if length s = 3 then ''X'' else [])"

definition demo_http_get :: "string \<Rightarrow> py_error + response" where
  "demo_http_get url =
     (if url = ''https://files.rcsb.org/download/1abc.pdb''
      then Inr \<lparr>status_code = 200, reason = ''OK'', resp_text = '' ALAWHOH GLY CYS''\<rparr>
      else Inr \<lparr>status_code = 404, reason = ''Not Found'', resp_text = []\<rparr>)"

definition demo_to_csv :: "result list \<Rightarrow> string" where
  "demo_to_csv results =
     concat (map (\<lambda>r. py_str (sequence_id r) @ '','' @ (case pdb_file r of None \<Rightarrow> [] | Some p \<Rightarrow> p)
                        @ [CHR 0x0A]) results)"

text \<open>A foldseek that works: \<open>createdb\<close> makes the database files, \<open>lndb\<close> the link,
  \<open>convert2fasta\<close> the FASTA file. And one that is not installed.\<close>

definition words :: "string \<Rightarrow> string list" where
  "words s = foldr (\<lambda>c ws. if c = CHR '' '' then [] # ws else (c # hd ws) # tl ws) s [[]]"

definition demo_shell ::
  "string \<Rightarrow> (string \<times> node) list \<Rightarrow> completed_process \<times> (string \<times> node) list" where
  "demo_shell command files =
     (case words command of
        [f, sub, a, b] \<Rightarrow>
          if sub = ''createdb''
          then (\<lparr>returncode = 0, proc_stdout = [], proc_stderr = []\<rparr>,
                AList.update (b @ ''_a3m'') (File [])
                  (AList.update (b @ ''_ss'') (File ''DD'')
                    (AList.update (b @ ''_h'') (File ''h'') files)))
          else if sub = ''lndb''
          then (\<lparr>returncode = 0, proc_stdout = [], proc_stderr = []\<rparr>,
                AList.update b (File ''h'') files)
          else if sub = ''convert2fasta''
          then (\<lparr>returncode = 0, proc_stdout = [], proc_stderr = []\<rparr>,
                AList.update b (File (''>'' @ a @ [CHR 0x0A])) files)
          else (\<lparr>returncode = 1, proc_stdout = [], proc_stderr = ''unknown''\<rparr>, files)
      | _ \<Rightarrow> (\<lparr>returncode = 1, proc_stdout = [], proc_stderr = ''usage''\<rparr>, files))"

definition missing_shell ::
  "string \<Rightarrow> (string \<times> node) list \<Rightarrow> completed_process \<times> (string \<times> node) list" where
  "missing_shell command files =
     (\<lparr>returncode = 127, proc_stdout = [], proc_stderr = ''foldseek: not found''\<rparr>, files)"

definition demo_rows :: "row list" where
  "demo_rows =
     [\<lparr>col_Unnamed_0 = 0, col_Sequence = ''AXG'', col_Domain = ''1abcA00''\<rparr>,
      \<lparr>col_Unnamed_0 = 1, col_Sequence = ''AC'', col_Domain = ''9zzzA00''\<rparr>,
      \<lparr>col_Unnamed_0 = 2, col_Sequence = ''GA'', col_Domain = ''1abcA00''\<rparr>]"

definition demo_extern :: extern where
  "demo_extern =
     \<lparr>http_get = demo_http_get, parse_pdb = demo_parse, save_pdb = demo_save, seq1 = demo_seq1,
      df_to_csv = demo_to_csv, read_csv = (\<lambda>txt. Inr demo_rows), shell = demo_shell\<rparr>"

definition empty_world :: world where
  "empty_world = \<lparr>fs = [], stdout = [], http_log = []\<rparr>"

text \<open>
  Three stand-ins for the embedding steps of predict_embed.py: an \<open>embed_sequence\<close> that
  returns, one that finds no \<open>Dataset.csv\<close> and raises, and an \<open>embed_3Di\<close> that
  would print its argument.
\<close>

definition demo_embed_sequence :: "world \<Rightarrow> (py_error + unit) \<times> world" where
  "demo_embed_sequence w = (Inr (), print ''Doing 0 1'' w)"

definition failing_embed_sequence :: "world \<Rightarrow> (py_error + unit) \<times> world" where
  "failing_embed_sequence w =
     (Inl (OSError ''No such file or directory: ./src/cathe-predict/Dataset.csv''),
      print ''Loading ProtT5 model. (can take a few minutes)'' w)"

definition demo_embed_3Di :: "string \<Rightarrow> world \<Rightarrow> (py_error + unit) \<times> world" where
  "demo_embed_3Di pdb_path w = (Inr (), print pdb_path w)"

definition dir_world :: world where
  "dir_world = \<lparr>fs = [(''d'', Dir)], stdout = [], http_log = []\<rparr>"

definition raw_world :: world where
  "raw_world = \<lparr>fs = [(''d/0_1abc.pdb'', File '' ALAWHOH GLY CYS'')], stdout = [], http_log = []\<rparr>"

definition train_world :: world where
  "train_world = \<lparr>fs = [(''./data/Dataset/csv/Train.csv'', File ''csv'')], stdout = [], http_log = []\<rparr>"

definition no_foldseek_extern :: extern where
  "no_foldseek_extern = demo_extern\<lparr>shell := missing_shell\<rparr>"

section \<open>The specification's words, for comparison\<close>

text \<open>
  The sequence of a chain as the specification words it: the one-letter codes of the
  standard residues of chain \<open>chain_id\<close> in model \<open>model_id\<close>, concatenated in chain order.
\<close>

definition chain_sequence :: "extern \<Rightarrow> char \<Rightarrow> int \<Rightarrow> pdb_structure \<Rightarrow> string" where
  "chain_sequence E chain_id model_id structure' =
     concat (map (\<lambda>r. seq1 E (resname r))
       (filter (\<lambda>r. fst (rid r) = '' '')
         (concat (map residues
           (filter (\<lambda>c. cid c = chain_id)
             (concat (map chains (filter (\<lambda>m. mid m = model_id) structure'))))))))"

text \<open>
  A row's Domain field is well-formed when it has a fifth character and its characters
  from index 5 on parse as an integer; \<open>row_url\<close> is the URL the row's task requests;
  \<open>task_outcome\<close> says what the future of a row's task may hold: a record with the row's
  id for a well-formed row, an IndexError or a ValueError otherwise.
\<close>

definition well_formed_domain :: "string \<Rightarrow> bool" where
  "well_formed_domain d =
     (4 < length d \<and> (case py_int (drop 5 d) of Inl e \<Rightarrow> False | Inr i \<Rightarrow> True))"

definition row_url :: "row \<Rightarrow> string" where
  "row_url r = ''https://files.rcsb.org/download/'' @ take 4 (col_Domain r) @ ''.pdb''"

definition task_outcome :: "row \<Rightarrow> py_error + result \<Rightarrow> bool" where
  "task_outcome r x =
     (case x of
        Inr rec \<Rightarrow> well_formed_domain (col_Domain r) \<and> sequence_id rec = col_Unnamed_0 r
      | Inl (IndexError m) \<Rightarrow> \<not> well_formed_domain (col_Domain r)
      | Inl (ValueError m) \<Rightarrow> \<not> well_formed_domain (col_Domain r)
      | Inl e \<Rightarrow> False)"

section \<open>Properties of the batch generator\<close>

lemma one_hot_eq: "l < nc \<Longrightarrow> one_hot nc l = Inr (one_hot_spec nc l)"
  by (auto simp: one_hot_def one_hot_spec_def list_eq_iff_nth_eq nth_list_update)

lemma fill_batch_run:
  assumes "X_t \<noteq> []" "length y_t = length X_t" "\<forall>l\<in>set y_t. l < nc" "val \<le> length X_t"
  shows "\<exists>val'. fill_batch X_t y_t nc j val (xb, yb) =
           Inr ((xb @ map (\<lambda>i. X_t ! ((val + i) mod length X_t)) [0..<j],
                 yb @ map (\<lambda>i. one_hot_spec nc (y_t ! ((val + i) mod length X_t))) [0..<j]), val')
         \<and> val' \<le> length X_t \<and> val' mod length X_t = (val + j) mod length X_t"
  using assms(4)
proof (induction j arbitrary: val xb yb)
  case 0
  then show ?case by simp
next
  case (Suc j)
  let ?n = "length X_t"
  define v where "v = (if val = ?n then 0 else val)"
  have n: "0 < ?n" using assms(1) by simp
  have v: "v < ?n" "v = val mod ?n" using Suc.prems n by (auto simp: v_def)
  have lab: "y_t ! v < nc" using assms(2,3) v(1) by simp
  from Suc.IH[of "v + 1" "xb @ [X_t ! v]" "yb @ [one_hot_spec nc (y_t ! v)]"] v(1)
  obtain val' where r: "fill_batch X_t y_t nc j (v + 1) (xb @ [X_t ! v], yb @ [one_hot_spec nc (y_t ! v)]) =
           Inr (((xb @ [X_t ! v]) @ map (\<lambda>i. X_t ! ((v + 1 + i) mod ?n)) [0..<j],
                 (yb @ [one_hot_spec nc (y_t ! v)]) @ map (\<lambda>i. one_hot_spec nc (y_t ! ((v + 1 + i) mod ?n))) [0..<j]), val')"
     and b: "val' \<le> ?n" and m: "val' mod ?n = (v + 1 + j) mod ?n"
    by auto
  have sh: "\<And>i. (v + 1 + i) mod ?n = (val + Suc i) mod ?n"
    using v(2) by (metis add.assoc plus_1_eq_Suc mod_add_left_eq)
  have step: "fill_batch X_t y_t nc (Suc j) val (xb, yb) =
      fill_batch X_t y_t nc j (v + 1) (xb @ [X_t ! v], yb @ [one_hot_spec nc (y_t ! v)])"
    using v(1) assms(2) lab by (simp add: v_def[symmetric] one_hot_eq Let_def del: fill_batch.simps(1))
  have v0: "v = (val + 0) mod ?n" using v(2) by simp
  show ?case
    apply (rule exI[of _ val'])
    apply (simp only: step r sh)
    apply (simp add: b m[unfolded sh] upt_rec[of 0 "Suc j"] map_Suc_upt[symmetric] v(2) del: upt_Suc)
    done
qed

lemma bm_yield_run:
  assumes "X_t \<noteq> []" "length y_t = length X_t" "\<forall>l\<in>set y_t. l < nc" "val \<le> length X_t"
  shows "bm_yield X_t y_t nc b val k =
           Inr (map (\<lambda>j. X_t ! ((val + k * b + j) mod length X_t)) [0..<b],
                map (\<lambda>j. one_hot_spec nc (y_t ! ((val + k * b + j) mod length X_t))) [0..<b])"
  using assms(4)
proof (induction k arbitrary: val)
  case 0
  from fill_batch_run[OF assms(1-3) 0, of b "[]" "[]"] show ?case by auto
next
  case (Suc k)
  let ?n = "length X_t"
  from fill_batch_run[OF assms(1-3) Suc.prems, of b "[]" "[]"]
  obtain val' where r: "fill_batch X_t y_t nc b val ([], []) =
           Inr ((map (\<lambda>i. X_t ! ((val + i) mod ?n)) [0..<b],
                 map (\<lambda>i. one_hot_spec nc (y_t ! ((val + i) mod ?n))) [0..<b]), val')"
     and bd: "val' \<le> ?n" and m: "val' mod ?n = (val + b) mod ?n"
    by auto
  have sh: "\<And>j. (val' + k * b + j) mod ?n = (val + Suc k * b + j) mod ?n"
  proof -
    fix j
    have "(val' + (k * b + j)) mod ?n = (val + b + (k * b + j)) mod ?n"
      using m by (metis mod_add_left_eq)
    then show "(val' + k * b + j) mod ?n = (val + Suc k * b + j) mod ?n"
      by (simp add: ac_simps)
  qed
  show ?case
    by (simp only: bm_yield.simps r sum.case prod.case Suc.IH[OF bd] sh)
qed

text \<open>
  C9: for a non-empty \<open>X_t\<close>, labels \<open>y_t\<close> of the same length \<open>n\<close>, all below
  \<open>num_classes\<close>, and \<open>batch_size \<ge> 1\<close>, every \<open>yield\<close> of \<open>bm_generator\<close> produces a
  batch of exactly \<open>batch_size\<close> samples; sample \<open>j\<close> of batch \<open>k\<close> is
  \<open>X_t[(k * batch_size + j) mod n]\<close> with the one-hot vector of its label.
\<close>

theorem bm_generator_batches:
  assumes "X_t \<noteq> []" and "length y_t = length X_t" and "\<forall>l\<in>set y_t. l < num_classes"
    and "1 \<le> batch_size"
  shows "\<exists>X_batch y_batch.
           bm_generator X_t y_t num_classes batch_size k = Inr (X_batch, y_batch) \<and>
           length X_batch = batch_size \<and> length y_batch = batch_size \<and>
           (\<forall>j<batch_size.
              X_batch ! j = X_t ! ((k * batch_size + j) mod length X_t) \<and>
              y_batch ! j = one_hot_spec num_classes (y_t ! ((k * batch_size + j) mod length X_t)))"
  using bm_yield_run[OF assms(1-3), of 0 batch_size k]
  by (simp add: bm_generator_def)

theorem bm_generator_batches_witness:
  "bm_generator [10, 20, 30 :: nat] [2, 0, 1] 3 2 1 = Inr ([30, 10], [[0, 1, 0], [0, 0, 1]])"
  using bm_generator_batches[of "[10, 20, 30 :: nat]" "[2, 0, 1]" 3 2 1]
  by (auto simp: one_hot_spec_def nth_Cons' upt_rec list_eq_iff_nth_eq less_Suc_eq numeral_2_eq_2)

section \<open>Properties of trim_pdb\<close>

lemma residue_fold_eq:
  "fold (\<lambda>residue sequence. if fst (rid residue) = '' '' then sequence @ seq1 E (resname residue) else sequence) rs s0
   = s0 @ concat (map (\<lambda>r. seq1 E (resname r)) (filter (\<lambda>r. fst (rid r) = '' '') rs))"
  by (induction rs arbitrary: s0) auto

lemma chain_fold_eq:
  "fold (\<lambda>chain' (sequence, chain_model_found).
            if cid chain' = c
            then (fold (\<lambda>residue sequence. if fst (rid residue) = '' '' then sequence @ seq1 E (resname residue) else sequence)
                       (residues chain') sequence, True)
            else (sequence, chain_model_found)) chs (s0, b0)
   = (s0 @ concat (map (\<lambda>r. seq1 E (resname r)) (filter (\<lambda>r. fst (rid r) = '' '')
              (concat (map residues (filter (\<lambda>ch. cid ch = c) chs))))),
      b0 \<or> (\<exists>ch\<in>set chs. cid ch = c))"
  by (induction chs arbitrary: s0 b0) (auto simp: residue_fold_eq)

lemma model_fold_eq:
  "fold (\<lambda>model' st.
             if mid model' = m
             then fold (\<lambda>chain' (sequence, chain_model_found).
                          if cid chain' = c
                          then (fold (\<lambda>residue sequence.
                                        if fst (rid residue) = '' ''
                                        then sequence @ seq1 E (resname residue)
                                        else sequence)
                                     (residues chain') sequence,
                                True)
                          else (sequence, chain_model_found))
                       (chains model') st
             else st) ms (s0, b0)
   = (s0 @ concat (map (\<lambda>r. seq1 E (resname r)) (filter (\<lambda>r. fst (rid r) = '' '')
              (concat (map residues (filter (\<lambda>ch. cid ch = c)
                 (concat (map chains (filter (\<lambda>mo. mid mo = m) ms)))))))),
      b0 \<or> (\<exists>mo\<in>set ms. mid mo = m \<and> (\<exists>ch\<in>set (chains mo). cid ch = c)))"
  by (induction ms arbitrary: s0 b0) (auto simp: chain_fold_eq)

lemma extract_scan_spec:
  "extract_scan E c m st =
     (chain_sequence E c m st, \<exists>mo\<in>set st. mid mo = m \<and> (\<exists>ch\<in>set (chains mo). cid ch = c))"
  unfolding extract_scan_def chain_sequence_def by (simp add: model_fold_eq)

lemma extract_sequence_Inr:
  "extract_sequence_from_pdb E p c m w = Inr q \<Longrightarrow>
     \<exists>st. get_structure E p w = Inr st \<and> chain_sequence E c m st = q"
  by (auto simp: extract_sequence_from_pdb_def extract_scan_spec split: sum.splits if_splits)

text \<open>
  C1: when \<open>trim_pdb\<close> returns normally, the sequence extracted from the trimmed file it
  wrote (the one-letter codes of the standard residues of the chain in the model, in
  chain order) equals \<open>sequence\<close> without its \<open>X\<close> characters; and when the sequence
  extracted from the written file differs, \<open>trim_pdb\<close> raises ValueError.
\<close>

theorem trim_pdb_verified:
  "(trim_pdb E pdb_file_path sequence chain_id model_id w = (Inr trimmed, w') \<longrightarrow>
      trimmed = py_replace ''.pdb'' ''_trimmed.pdb'' pdb_file_path \<and>
      extract_sequence_from_pdb E trimmed chain_id model_id w' = Inr (clean_sequence sequence) \<and>
      (\<exists>st'. get_structure E trimmed w' = Inr st' \<and>
             chain_sequence E chain_id model_id st' = clean_sequence sequence)) \<and>
   (\<forall>st w1 pdb_sequence.
      get_structure E pdb_file_path w = Inr st \<longrightarrow>
      fs_write (py_replace ''.pdb'' ''_trimmed.pdb'' pdb_file_path)
        (save_pdb E st (accept_residue (fst (trim_scan E sequence chain_id model_id st)))) w = Inr w1 \<longrightarrow>
      extract_sequence_from_pdb E (py_replace ''.pdb'' ''_trimmed.pdb'' pdb_file_path)
        chain_id model_id w1 = Inr pdb_sequence \<longrightarrow>
      pdb_sequence \<noteq> clean_sequence sequence \<longrightarrow>
      (\<exists>msg. trim_pdb E pdb_file_path sequence chain_id model_id w = (Inl (ValueError msg), w1)))"
proof (intro conjI impI allI)
  assume r: "trim_pdb E pdb_file_path sequence chain_id model_id w = (Inr trimmed, w')"
  then show t: "trimmed = py_replace ''.pdb'' ''_trimmed.pdb'' pdb_file_path"
    by (auto simp: trim_pdb_def Let_def compare_sequences_def split: sum.splits prod.splits if_splits)
  from r show x: "extract_sequence_from_pdb E trimmed chain_id model_id w' = Inr (clean_sequence sequence)"
    by (auto simp: trim_pdb_def Let_def compare_sequences_def split: sum.splits prod.splits if_splits)
  from extract_sequence_Inr[OF x]
  show "\<exists>st'. get_structure E trimmed w' = Inr st' \<and>
             chain_sequence E chain_id model_id st' = clean_sequence sequence" .
next
  fix st w1 pdb_sequence
  assume "get_structure E pdb_file_path w = Inr st"
    and "fs_write (py_replace ''.pdb'' ''_trimmed.pdb'' pdb_file_path)
        (save_pdb E st (accept_residue (fst (trim_scan E sequence chain_id model_id st)))) w = Inr w1"
    and "extract_sequence_from_pdb E (py_replace ''.pdb'' ''_trimmed.pdb'' pdb_file_path)
        chain_id model_id w1 = Inr pdb_sequence"
    and "pdb_sequence \<noteq> clean_sequence sequence"
  then show "\<exists>msg. trim_pdb E pdb_file_path sequence chain_id model_id w = (Inl (ValueError msg), w1)"
    by (auto simp: trim_pdb_def Let_def compare_sequences_def split: prod.splits)
qed

lemmas demo_simps = demo_extern_def demo_parse_def demo_save_def demo_seq1_def demo_http_get_def
  demo_to_csv_def raw_world_def empty_world_def
  trim_pdb_def get_structure_def fs_read_def fs_write_def extract_sequence_from_pdb_def
  extract_scan_def trim_scan_def accept_residue_def clean_sequence_def compare_sequences_def
  py_replace.simps Let_def mismatch_message_def
  dir_exists_def os_path_dirname_def below_def os_path_join_def

theorem trim_pdb_verified_witness:
  "trim_pdb demo_extern ''d/0_1abc.pdb'' ''AXG'' CHR ''A'' 0 raw_world =
     (Inr ''d/0_1abc_trimmed.pdb'',
      raw_world\<lparr>fs := [(''d/0_1abc.pdb'', File '' ALAWHOH GLY CYS''),
                        (''d/0_1abc_trimmed.pdb'', File '' ALAWHOH GLY'')]\<rparr>) \<and>
   extract_sequence_from_pdb demo_extern ''d/0_1abc_trimmed.pdb'' CHR ''A'' 0
     (raw_world\<lparr>fs := [(''d/0_1abc.pdb'', File '' ALAWHOH GLY CYS''),
                        (''d/0_1abc_trimmed.pdb'', File '' ALAWHOH GLY'')]\<rparr>) = Inr ''AG'' \<and>
   (\<exists>msg. trim_pdb demo_extern ''d/0_1abc.pdb'' ''GA'' CHR ''A'' 0 raw_world =
      (Inl (ValueError msg),
       raw_world\<lparr>fs := [(''d/0_1abc.pdb'', File '' ALAWHOH GLY CYS''),
                         (''d/0_1abc_trimmed.pdb'', File '' GLY'')]\<rparr>))"
proof -
  let ?w1 = "raw_world\<lparr>fs := [(''d/0_1abc.pdb'', File '' ALAWHOH GLY CYS''),
                        (''d/0_1abc_trimmed.pdb'', File '' ALAWHOH GLY'')]\<rparr>"
  let ?w2 = "raw_world\<lparr>fs := [(''d/0_1abc.pdb'', File '' ALAWHOH GLY CYS''),
                         (''d/0_1abc_trimmed.pdb'', File '' GLY'')]\<rparr>"
  have a: "trim_pdb demo_extern ''d/0_1abc.pdb'' ''AXG'' CHR ''A'' 0 raw_world =
     (Inr ''d/0_1abc_trimmed.pdb'', ?w1)"
    by (simp add: demo_simps)
  have b: "get_structure demo_extern ''d/0_1abc.pdb'' raw_world =
      Inr [\<lparr>mid = 0, chains = [\<lparr>cid = CHR ''A'', residues = demo_residues 1 '' ALAWHOH GLY CYS''\<rparr>]\<rparr>]"
    by (simp add: demo_simps)
  have c: "fs_write (py_replace ''.pdb'' ''_trimmed.pdb'' ''d/0_1abc.pdb'')
        (save_pdb demo_extern [\<lparr>mid = 0, chains = [\<lparr>cid = CHR ''A'', residues = demo_residues 1 '' ALAWHOH GLY CYS''\<rparr>]\<rparr>]
           (accept_residue (fst (trim_scan demo_extern ''GA'' CHR ''A'' 0
              [\<lparr>mid = 0, chains = [\<lparr>cid = CHR ''A'', residues = demo_residues 1 '' ALAWHOH GLY CYS''\<rparr>]\<rparr>])))) raw_world
        = Inr ?w2"
    by (simp add: demo_simps)
  have d: "extract_sequence_from_pdb demo_extern (py_replace ''.pdb'' ''_trimmed.pdb'' ''d/0_1abc.pdb'')
        CHR ''A'' 0 ?w2 = Inr ''G''"
    by (simp add: demo_simps)
  have e: "''G'' \<noteq> clean_sequence ''GA''"
    by (simp add: demo_simps)
  from trim_pdb_verified[of demo_extern "''d/0_1abc.pdb''" "''AXG''" "CHR ''A''" 0 raw_world "''d/0_1abc_trimmed.pdb''" ?w1] a
  have 1: "extract_sequence_from_pdb demo_extern ''d/0_1abc_trimmed.pdb'' CHR ''A'' 0 ?w1 = Inr (clean_sequence ''AXG'')"
    by blast
  have 2: "clean_sequence ''AXG'' = ''AG''" by (simp add: demo_simps)
  from trim_pdb_verified[of demo_extern "''d/0_1abc.pdb''" "''GA''" "CHR ''A''" 0 raw_world] b c d e
  have 3: "\<exists>msg. trim_pdb demo_extern ''d/0_1abc.pdb'' ''GA'' CHR ''A'' 0 raw_world = (Inl (ValueError msg), ?w2)"
    by blast
  show ?thesis using a 1 2 3 by simp
qed

section \<open>Properties of a download task and of the pool\<close>

lemma print_fields [simp]:
  "http_log (print l w) = http_log w" "fs (print l w) = fs w" "stdout (print l w) = stdout w @ [l]"
  by (simp_all add: print_def)

lemma fs_write_fields:
  "fs_write p c w = Inr w' \<Longrightarrow> http_log w' = http_log w \<and> stdout w' = stdout w"
  by (auto simp: fs_write_def split: option.splits node.splits if_splits)

lemma os_remove_fields:
  "os_remove p w = Inr w' \<Longrightarrow> http_log w' = http_log w \<and> stdout w' = stdout w"
  by (auto simp: os_remove_def split: option.splits node.splits)

lemma os_makedirs_fields:
  "os_makedirs p w = Inr w' \<Longrightarrow> http_log w' = http_log w \<and> stdout w' = stdout w"
  by (auto simp: os_makedirs_def split: option.splits node.splits if_splits)

lemma trim_pdb_fields:
  "trim_pdb E p s c m w = (x, w') \<Longrightarrow> http_log w' = http_log w \<and> stdout w' = stdout w"
  by (auto simp: trim_pdb_def Let_def split: sum.splits prod.splits if_splits dest: fs_write_fields)

lemma download_try_http_log:
  "download_try E i s pdb c m url out w = (x, w') \<Longrightarrow> http_log w' = http_log w @ [url]"
  unfolding download_try_def Let_def
  by (auto split: sum.splits prod.splits dest!: fs_write_fields os_remove_fields trim_pdb_fields)

lemma download_try_id:
  "download_try E i s pdb c m url out w = (Inr r, w') \<Longrightarrow> sequence_id r = i"
  unfolding download_try_def Let_def
  by (auto split: sum.splits prod.splits)

lemma py_int_error: "py_int s = Inl e \<Longrightarrow> \<exists>m. e = ValueError m"
  by (auto simp: py_int_def Let_def int_literal_error_def split: list.splits if_splits option.splits)

lemma well_formed_domain_iff:
  "well_formed_domain d \<longleftrightarrow> (\<exists>ch mo. py_index d 4 = Inr ch \<and> py_int (drop 5 d) = Inr mo)"
  by (auto simp: well_formed_domain_def py_index_def split: sum.splits)

lemma download_well_formed:
  assumes "py_index (col_Domain r) 4 = Inr ch" "py_int (drop 5 (col_Domain r)) = Inr mo"
  shows "download_and_trim_pdb E r out w =
     (case download_try E (col_Unnamed_0 r) (clean_sequence (col_Sequence r)) (take 4 (col_Domain r))
             ch mo (row_url r) out w of
        (Inr rec, w') \<Rightarrow> (Inr rec, w')
      | (Inl e, w') \<Rightarrow> (Inr \<lparr>sequence_id = col_Unnamed_0 r, pdb_file = None\<rparr>, print (handler_line e) w'))"
  using assms by (simp add: download_and_trim_pdb_def Let_def row_url_def)

lemma download_malformed:
  assumes "\<not> well_formed_domain (col_Domain r)"
  shows "\<exists>m. download_and_trim_pdb E r out w = (Inl (IndexError m), w) \<or>
             download_and_trim_pdb E r out w = (Inl (ValueError m), w)"
proof (cases "py_index (col_Domain r) 4")
  case (Inl e)
  then show ?thesis
    by (auto simp: download_and_trim_pdb_def Let_def py_index_def split: if_splits)
next
  case (Inr ch)
  with assms obtain e where "py_int (drop 5 (col_Domain r)) = Inl e"
    by (auto simp: well_formed_domain_iff) (metis sumE)
  with Inr py_int_error[OF this] show ?thesis
    by (auto simp: download_and_trim_pdb_def Let_def)
qed

lemma download_task:
  "task_outcome r (fst (download_and_trim_pdb E r out w)) \<and>
   http_log (snd (download_and_trim_pdb E r out w)) =
     http_log w @ (if well_formed_domain (col_Domain r) then [row_url r] else [])"
proof (cases "well_formed_domain (col_Domain r)")
  case True
  then obtain ch mo where wf: "py_index (col_Domain r) 4 = Inr ch" "py_int (drop 5 (col_Domain r)) = Inr mo"
    by (auto simp: well_formed_domain_iff)
  obtain x w' where t: "download_try E (col_Unnamed_0 r) (clean_sequence (col_Sequence r)) (take 4 (col_Domain r))
             ch mo (row_url r) out w = (x, w')" by force
  show ?thesis
  proof (cases x)
    case (Inl e)
    then show ?thesis
      using True download_try_http_log[OF t]
      by (simp add: download_well_formed[OF wf] t task_outcome_def)
  next
    case (Inr rec)
    then show ?thesis
      using True download_try_http_log[OF t] download_try_id[OF t[unfolded Inr]]
      by (simp add: download_well_formed[OF wf] t task_outcome_def)
  qed
next
  case False
  from download_malformed[OF False, of E out w] show ?thesis
    using False by (auto simp: task_outcome_def)
qed


lemma mset_remove_nth:
  "i < length xs \<Longrightarrow> mset xs = add_mset (xs ! i) (mset (take i xs @ drop (Suc i) xs))"
  by (metis id_take_nth_drop mset.simps(2) mset_append union_mset_add_mset_right)


lemma run_pool_master:
  "peak \<le> max_workers \<Longrightarrow> length running \<le> max_workers \<Longrightarrow>
   \<exists>rows' new pk w'.
     run_pool E out picks queue running outcomes peak w = (outcomes @ new, pk, w') \<and>
     mset rows' = mset queue + mset running \<and>
     list_all2 task_outcome rows' new \<and>
     http_log w' = http_log w @ map row_url (filter (\<lambda>r. well_formed_domain (col_Domain r)) rows') \<and>
     pk \<le> max_workers"
proof (induction E out picks queue running outcomes peak w rule: run_pool.induct)
  case (1 E out picks queue running outcomes peak w)
  show ?case
  proof (cases "queue \<noteq> [] \<and> length running < max_workers")
    case True
    from "1.IH"(1)[OF True] True "1.prems"
    obtain rows' new pk w' where
      r: "run_pool E out picks (tl queue) (running @ [hd queue]) outcomes (max peak (length running + 1)) w
          = (outcomes @ new, pk, w')"
      and m: "mset rows' = mset (tl queue) + mset (running @ [hd queue])"
      and rest: "list_all2 task_outcome rows' new"
        "http_log w' = http_log w @ map row_url (filter (\<lambda>r. well_formed_domain (col_Domain r)) rows')"
        "pk \<le> max_workers"
      by force
    have "mset rows' = mset queue + mset running"
      using m True by (cases queue) auto
    with r rest True show ?thesis
      by (subst run_pool.simps) auto
  next
    case False
    show ?thesis
    proof (cases "running = []")
      case True
      with False have "queue = []" by (auto simp: max_workers_def)
      with True "1.prems" show ?thesis
        by (subst run_pool.simps) auto
    next
      case ne: False
      define i where "i = (case picks of [] \<Rightarrow> 0 | p # ps \<Rightarrow> p mod length running)"
      define r where "r = download_and_trim_pdb E (running ! i) out w"
      have i: "i < length running" using ne by (auto simp: i_def split: list.splits)
      have len: "length (take i running @ drop (Suc i) running) \<le> max_workers"
        using "1.prems"(2) i by auto
      from "1.IH"(2)[OF False ne i_def r_def "1.prems"(1) len]
      obtain rows' new pk w' where
        rp: "run_pool E out (tl picks) queue (take i running @ drop (Suc i) running)
              (outcomes @ [fst r]) peak (snd r) = ((outcomes @ [fst r]) @ new, pk, w')"
        and m: "mset rows' = mset queue + mset (take i running @ drop (Suc i) running)"
        and lo: "list_all2 task_outcome rows' new"
        and hl: "http_log w' = http_log (snd r) @ map row_url (filter (\<lambda>r. well_formed_domain (col_Domain r)) rows')"
        and pk: "pk \<le> max_workers"
        by blast
      have step: "run_pool E out picks queue running outcomes peak w =
          run_pool E out (tl picks) queue (take i running @ drop (Suc i) running)
              (outcomes @ [fst r]) peak (snd r)"
        using False ne by (subst run_pool.simps) (auto simp add: i_def r_def Let_def)
      have t: "task_outcome (running ! i) (fst r)"
        and h: "http_log (snd r) = http_log w @
            (if well_formed_domain (col_Domain (running ! i)) then [row_url (running ! i)] else [])"
        using download_task[of "running ! i" E out w] by (simp_all add: r_def)
      show ?thesis
        apply (rule exI[of _ "running ! i # rows'"])
        apply (rule exI[of _ "fst r # new"])
        apply (rule exI[of _ pk])
        apply (rule exI[of _ w'])
        using rp m lo hl pk t h mset_remove_nth[OF i]
        by (simp add: step)
    qed
  qed
qed

lemma collect_all_Inr:
  "list_all2 (\<lambda>r x. \<exists>rec. x = Inr rec \<and> sequence_id rec = col_Unnamed_0 r) rows' outs \<Longrightarrow>
   \<exists>results. outs = map Inr results \<and> collect_results outs acc = Inr (acc @ results) \<and>
      list_all2 (\<lambda>r rec. sequence_id rec = col_Unnamed_0 r) rows' results"
proof (induction rows' outs arbitrary: acc rule: list_all2_induct)
  case Nil
  then show ?case by simp
next
  case (Cons r rows' x outs)
  then obtain rec where x: "x = Inr rec" "sequence_id rec = col_Unnamed_0 r" by blast
  from Cons.IH[of "acc @ [rec]"] obtain results where
    "outs = map Inr results" "collect_results outs (acc @ [rec]) = Inr ((acc @ [rec]) @ results)"
    "list_all2 (\<lambda>r rec. sequence_id rec = col_Unnamed_0 r) rows' results" by blast
  then show ?case using x
    by (intro exI[of _ "rec # results"]) simp
qed

lemma collect_raises:
  "list_all2 task_outcome rows' outs \<Longrightarrow> \<exists>r\<in>set rows'. \<not> well_formed_domain (col_Domain r) \<Longrightarrow>
   \<exists>m. collect_results outs acc = Inl (IndexError m) \<or> collect_results outs acc = Inl (ValueError m)"
proof (induction rows' outs arbitrary: acc rule: list_all2_induct)
  case Nil
  then show ?case by simp
next
  case (Cons r rows' x outs)
  show ?case
  proof (cases x)
    case (Inl e)
    with Cons.hyps(1) show ?thesis
      by (cases e) (auto simp: task_outcome_def)
  next
    case (Inr rec)
    with Cons.hyps(1) have "well_formed_domain (col_Domain r)"
      by (simp add: task_outcome_def)
    with Cons.prems have "\<exists>r\<in>set rows'. \<not> well_formed_domain (col_Domain r)" by auto
    from Cons.IH[OF this, of "acc @ [rec]"] Inr show ?thesis by simp
  qed
qed

lemma task_outcome_wf:
  "well_formed_domain (col_Domain r) \<Longrightarrow> task_outcome r x \<Longrightarrow>
     \<exists>rec. x = Inr rec \<and> sequence_id rec = col_Unnamed_0 r"
  by (auto simp: task_outcome_def split: sum.splits py_error.splits)

lemma run_command_http_log [simp]: "http_log (snd (run_command E c w)) = http_log w"
  by (simp add: run_command_def split: prod.splits)

lemma foldseek_http_log [simp]:
  "http_log (process_dataset_foldseek E out q f w) = http_log w"
proof -
  have *: "\<And>c w x w'. run_command E c w = (x, w') \<Longrightarrow> http_log w' = http_log w"
    by (metis run_command_http_log snd_conv)
  show ?thesis
    unfolding process_dataset_foldseek_def
    by (auto split: prod.splits sum.splits dest!: *)
qed

lemma remove_listed_http_log:
  "http_log (snd (remove_listed out files w)) = http_log w"
  by (induction files arbitrary: w) (auto split: sum.splits dest: os_remove_fields)

lemma cleanup_http_log [simp]:
  "http_log (snd (process_dataset_cleanup out q w)) = http_log w"
  unfolding process_dataset_cleanup_def
  by (auto split: sum.splits simp: remove_listed_http_log dest!: os_remove_fields)

lemma download_stage:
  assumes mk: "os_makedirs output_dir w = Inr w0"
  shows "\<exists>rows' outs peak w1.
      run_pool E output_dir picks data [] [] 0 w0 = (outs, peak, w1) \<and>
      mset rows' = mset data \<and> list_all2 task_outcome rows' outs \<and> peak \<le> max_workers \<and>
      http_log w1 = http_log w @ map row_url (filter (\<lambda>r. well_formed_domain (col_Domain r)) rows')"
  using run_pool_master[of 0 "[]" E output_dir picks data "[]" w0] os_makedirs_fields[OF mk]
  by auto

lemma download_stage_http_log:
  "\<exists>rows'. mset rows' \<subseteq># mset data \<and>
     http_log (snd (process_dataset_download E picks data output_dir w)) = http_log w @ map row_url rows'"
proof (cases "os_makedirs output_dir w")
  case (Inl e)
  then show ?thesis
    by (intro exI[of _ "[]"]) (simp add: process_dataset_download_def)
next
  case (Inr w0)
  from download_stage[OF Inr, of E picks data] obtain rows' outs peak w1 where
    r: "run_pool E output_dir picks data [] [] 0 w0 = (outs, peak, w1)"
    and m: "mset rows' = mset data"
    and h: "http_log w1 = http_log w @ map row_url (filter (\<lambda>r. well_formed_domain (col_Domain r)) rows')"
    by blast
  have sub: "mset (filter (\<lambda>r. well_formed_domain (col_Domain r)) rows') \<subseteq># mset data"
    using m by (metis mset_filter multiset_filter_subset)
  have "http_log (snd (process_dataset_download E picks data output_dir w)) = http_log w1"
    by (auto simp: process_dataset_download_def Inr r Let_def split: sum.splits dest: fs_write_fields)
  with h sub show ?thesis by metis
qed

section \<open>Error handling, requests and results of process_dataset\<close>

text \<open>
  C2: for a row with a well-formed Domain field, \<open>download_and_trim_pdb\<close> never lets an
  exception out: it always returns a record with the row's id, and whatever the \<open>try\<close>
  block raises (an HTTP error, a ValueError, any other exception) is caught, printed by
  the matching handler, and answered with the record whose \<open>pdb_file\<close> is \<open>None\<close>.
\<close>

theorem download_and_trim_pdb_catches:
  assumes "py_index (col_Domain r) 4 = Inr ch" and "py_int (drop 5 (col_Domain r)) = Inr mo"
  shows "(\<exists>pf w'. download_and_trim_pdb E r output_dir w =
                     (Inr \<lparr>sequence_id = col_Unnamed_0 r, pdb_file = pf\<rparr>, w')) \<and>
         (\<forall>e w1. download_try E (col_Unnamed_0 r) (clean_sequence (col_Sequence r))
                    (take 4 (col_Domain r)) ch mo (row_url r) output_dir w = (Inl e, w1) \<longrightarrow>
                  download_and_trim_pdb E r output_dir w =
                    (Inr \<lparr>sequence_id = col_Unnamed_0 r, pdb_file = None\<rparr>, print (handler_line e) w1))"
proof (intro conjI allI impI)
  obtain x w1 where t: "download_try E (col_Unnamed_0 r) (clean_sequence (col_Sequence r))
                    (take 4 (col_Domain r)) ch mo (row_url r) output_dir w = (x, w1)" by force
  show "\<exists>pf w'. download_and_trim_pdb E r output_dir w =
                     (Inr \<lparr>sequence_id = col_Unnamed_0 r, pdb_file = pf\<rparr>, w')"
  proof (cases x)
    case (Inl e)
    then show ?thesis by (simp add: download_well_formed[OF assms] t)
  next
    case (Inr rec)
    have "rec = \<lparr>sequence_id = col_Unnamed_0 r, pdb_file = pdb_file rec\<rparr>"
      using download_try_id[OF t[unfolded Inr]] by (cases rec) simp
    with Inr show ?thesis
      by (simp add: download_well_formed[OF assms] t) blast
  qed
next
  fix e w1
  assume "download_try E (col_Unnamed_0 r) (clean_sequence (col_Sequence r))
                    (take 4 (col_Domain r)) ch mo (row_url r) output_dir w = (Inl e, w1)"
  then show "download_and_trim_pdb E r output_dir w =
                    (Inr \<lparr>sequence_id = col_Unnamed_0 r, pdb_file = None\<rparr>, print (handler_line e) w1)"
    by (simp add: download_well_formed[OF assms])
qed

lemma py_int_empty: "py_int [] = Inl (int_literal_error [])"
  by (simp add: py_int_def py_strip_def)

lemma malformed_not_wf:
  assumes "length d < 6 \<or> (\<exists>e. py_int (drop 5 d) = Inl e)"
  shows "\<not> well_formed_domain d"
proof
  assume wf: "well_formed_domain d"
  then obtain i where i: "py_int (drop 5 d) = Inr i" "4 < length d"
    by (auto simp: well_formed_domain_def split: sum.splits)
  with assms have "length d < 6" by auto
  with i(2) have "drop 5 d = []" by simp
  with i(1) show False by (simp add: py_int_empty)
qed

text \<open>
  C7: for a row whose Domain field has fewer than 6 characters, or whose characters from
  index 5 on do not parse as an integer, \<open>download_and_trim_pdb\<close> raises IndexError or
  ValueError before its \<open>try\<close> block, leaving the world untouched; in \<open>process_dataset\<close>
  the exception comes out of \<open>future.result()\<close> and ends the function.
\<close>

theorem malformed_domain_propagates:
  assumes "length (col_Domain r) < 6 \<or> (\<exists>e. py_int (drop 5 (col_Domain r)) = Inl e)"
  shows "(\<exists>m. download_and_trim_pdb E r output_dir w = (Inl (IndexError m), w) \<or>
              download_and_trim_pdb E r output_dir w = (Inl (ValueError m), w)) \<and>
         (\<forall>data picks query_db query_db_ss_fasta w0.
            r \<in> set data \<longrightarrow> os_makedirs output_dir w = Inr w0 \<longrightarrow>
            (\<exists>m w'. process_dataset E picks data output_dir query_db query_db_ss_fasta w = (Inl (IndexError m), w') \<or>
                     process_dataset E picks data output_dir query_db query_db_ss_fasta w = (Inl (ValueError m), w')))"
proof (intro conjI allI impI)
  have nwf: "\<not> well_formed_domain (col_Domain r)"
    using assms by (rule malformed_not_wf)
  from download_malformed[OF nwf]
  show "\<exists>m. download_and_trim_pdb E r output_dir w = (Inl (IndexError m), w) \<or>
              download_and_trim_pdb E r output_dir w = (Inl (ValueError m), w)" .
  fix data picks query_db query_db_ss_fasta w0
  assume mem: "r \<in> set data" and mk: "os_makedirs output_dir w = Inr w0"
  from download_stage[OF mk, of E picks data] obtain rows' outs peak w1 where
    rp: "run_pool E output_dir picks data [] [] 0 w0 = (outs, peak, w1)"
    and m: "mset rows' = mset data" and lo: "list_all2 task_outcome rows' outs"
    by blast
  from m mem have "r \<in> set rows'" by (metis set_mset_mset)
  with nwf have "\<exists>r\<in>set rows'. \<not> well_formed_domain (col_Domain r)" by blast
  from collect_raises[OF lo this, of "[]"] obtain msg where
    c: "collect_results outs [] = Inl (IndexError msg) \<or> collect_results outs [] = Inl (ValueError msg)"
    by blast
  then show "\<exists>m w'. process_dataset E picks data output_dir query_db query_db_ss_fasta w = (Inl (IndexError m), w') \<or>
                     process_dataset E picks data output_dir query_db query_db_ss_fasta w = (Inl (ValueError m), w')"
    by (auto simp: process_dataset_def process_dataset_download_def mk rp)
qed

text \<open>
  C8: one task issues at most one HTTP GET; a task whose download fails returns the
  record with \<open>pdb_file = None\<close> after that single request; and the requests of a whole
  run of \<open>process_dataset\<close> are the URLs of a sub-multiset of its rows, so no row is
  requested twice.
\<close>

theorem http_get_at_most_once:
  "(\<exists>reqs. http_log (snd (download_and_trim_pdb E r output_dir w)) = http_log w @ reqs \<and> length reqs \<le> 1) \<and>
   (\<forall>ch mo e.
      py_index (col_Domain r) 4 = Inr ch \<longrightarrow> py_int (drop 5 (col_Domain r)) = Inr mo \<longrightarrow>
      (http_get E (row_url r) = Inl e \<or>
       (\<exists>resp. http_get E (row_url r) = Inr resp \<and> raise_for_status (row_url r) resp = Inl e)) \<longrightarrow>
      download_and_trim_pdb E r output_dir w =
        (Inr \<lparr>sequence_id = col_Unnamed_0 r, pdb_file = None\<rparr>,
         print (handler_line e) (w\<lparr>http_log := http_log w @ [row_url r]\<rparr>))) \<and>
   (\<exists>rows'. mset rows' \<subseteq># mset data \<and>
      http_log (snd (process_dataset E picks data output_dir query_db query_db_ss_fasta w)) =
        http_log w @ map row_url rows')"
proof (intro conjI allI impI)
  show "\<exists>reqs. http_log (snd (download_and_trim_pdb E r output_dir w)) = http_log w @ reqs \<and> length reqs \<le> 1"
    using download_task[of r E output_dir w] by auto
next
  fix ch mo e
  assume wf: "py_index (col_Domain r) 4 = Inr ch" "py_int (drop 5 (col_Domain r)) = Inr mo"
    and fail: "http_get E (row_url r) = Inl e \<or>
       (\<exists>resp. http_get E (row_url r) = Inr resp \<and> raise_for_status (row_url r) resp = Inl e)"
  from fail have "download_try E (col_Unnamed_0 r) (clean_sequence (col_Sequence r))
                    (take 4 (col_Domain r)) ch mo (row_url r) output_dir w
                  = (Inl e, w\<lparr>http_log := http_log w @ [row_url r]\<rparr>)"
    by (auto simp: download_try_def Let_def)
  then show "download_and_trim_pdb E r output_dir w =
        (Inr \<lparr>sequence_id = col_Unnamed_0 r, pdb_file = None\<rparr>,
         print (handler_line e) (w\<lparr>http_log := http_log w @ [row_url r]\<rparr>))"
    by (simp add: download_well_formed[OF wf])
next
  from download_stage_http_log[of data E picks output_dir w] obtain rows' where
    "mset rows' \<subseteq># mset data"
    "http_log (snd (process_dataset_download E picks data output_dir w)) = http_log w @ map row_url rows'"
    by blast
  moreover have "http_log (snd (process_dataset E picks data output_dir query_db query_db_ss_fasta w)) =
     http_log (snd (process_dataset_download E picks data output_dir w))"
    by (auto simp: process_dataset_def split: prod.splits sum.splits)
  ultimately show "\<exists>rows'. mset rows' \<subseteq># mset data \<and>
      http_log (snd (process_dataset E picks data output_dir query_db query_db_ss_fasta w)) =
        http_log w @ map row_url rows'" by metis
qed

lemma fs_read_after_write:
  "fs_write p c w = Inr w' \<Longrightarrow> fs_read p w' = Inr c"
  by (auto simp: fs_write_def fs_read_def update_conv' split: option.splits node.splits if_splits)

text \<open>
  C10: when every row's Domain field is well-formed, the pool runs one task per row
  with at most \<open>max_workers = 20\<close> tasks at once, every future holds a record, and the
  results written to the CSV are one record per row, each with its row's id, in the
  order in which the tasks completed (some permutation \<open>rows'\<close> of the rows).
\<close>

theorem process_dataset_one_record_per_row:
  assumes "\<forall>r\<in>set data. well_formed_domain (col_Domain r)" and "os_makedirs output_dir w = Inr w0"
  shows "\<exists>rows' results peak w1.
     run_pool E output_dir picks data [] [] 0 w0 = (map Inr results, peak, w1) \<and>
     peak \<le> max_workers \<and> mset rows' = mset data \<and>
     list_all2 (\<lambda>r rec. sequence_id rec = col_Unnamed_0 r) rows' results \<and>
     (case fs_write (os_path_join output_dir ''directly_saved_pdb_idx.csv'') (df_to_csv E results) w1 of
        Inl e \<Rightarrow> process_dataset_download E picks data output_dir w = (Inl e, w1)
      | Inr w2 \<Rightarrow>
          process_dataset_download E picks data output_dir w =
            (Inr results,
             print (''Download completed and results saved to ''
                    @ os_path_join output_dir ''directly_saved_pdb_idx.csv'') w2) \<and>
          fs_read (os_path_join output_dir ''directly_saved_pdb_idx.csv'') w2 = Inr (df_to_csv E results))"
proof -
  from download_stage[OF assms(2), of E picks data] obtain rows' outs peak w1 where
    rp: "run_pool E output_dir picks data [] [] 0 w0 = (outs, peak, w1)"
    and m: "mset rows' = mset data" and lo: "list_all2 task_outcome rows' outs"
    and pk: "peak \<le> max_workers"
    by blast
  have "\<forall>r\<in>set rows'. well_formed_domain (col_Domain r)"
    using assms(1) m by (metis set_mset_mset)
  with lo have "list_all2 (\<lambda>r x. \<exists>rec. x = Inr rec \<and> sequence_id rec = col_Unnamed_0 r) rows' outs"
    by (auto intro!: list_all2_mono[OF lo] task_outcome_wf simp: list_all2_conv_all_nth)
  from collect_all_Inr[OF this, of "[]"] obtain results where
    o: "outs = map Inr results" and c: "collect_results outs [] = Inr results"
    and l: "list_all2 (\<lambda>r rec. sequence_id rec = col_Unnamed_0 r) rows' results"
    by auto
  show ?thesis
    apply (rule exI[of _ rows'], rule exI[of _ results], rule exI[of _ peak], rule exI[of _ w1])
    using rp o c l m pk
    by (auto simp: process_dataset_download_def assms(2) Let_def fs_read_after_write split: sum.splits)
qed


theorem download_and_trim_pdb_catches_witness:
  "download_and_trim_pdb demo_extern
      \<lparr>col_Unnamed_0 = 1, col_Sequence = ''AC'', col_Domain = ''9zzzA00''\<rparr> ''d'' dir_world =
     (Inr \<lparr>sequence_id = 1, pdb_file = None\<rparr>,
      \<lparr>fs = [(''d'', Dir)],
       stdout = [''HTTP request failed: 404 Client Error: Not Found for url: https://files.rcsb.org/download/9zzz.pdb''],
       http_log = [''https://files.rcsb.org/download/9zzz.pdb'']\<rparr>) \<and>
   download_and_trim_pdb demo_extern
      \<lparr>col_Unnamed_0 = 2, col_Sequence = ''GA'', col_Domain = ''1abcA00''\<rparr> ''d'' dir_world =
     (Inr \<lparr>sequence_id = 2, pdb_file = None\<rparr>,
      \<lparr>fs = [(''d'', Dir), (''d/2_1abc.pdb'', File '' ALAWHOH GLY CYS''),
             (''d/2_1abc_trimmed.pdb'', File '' GLY'')],
       stdout = [mismatch_message ''d/2_1abc.pdb'' ''GA'' ''G'' ''AXGC''],
       http_log = [''https://files.rcsb.org/download/1abc.pdb'']\<rparr>) \<and>
   download_and_trim_pdb demo_extern
      \<lparr>col_Unnamed_0 = 2, col_Sequence = ''GA'', col_Domain = ''1abcA00''\<rparr> ''d'' empty_world =
     (Inr \<lparr>sequence_id = 2, pdb_file = None\<rparr>,
      \<lparr>fs = [],
       stdout = [''Other error occurred: No such file or directory: d/2_1abc.pdb''],
       http_log = [''https://files.rcsb.org/download/1abc.pdb'']\<rparr>)"
proof -
  let ?r1 = "\<lparr>col_Unnamed_0 = 1, col_Sequence = ''AC'', col_Domain = ''9zzzA00''\<rparr>"
  let ?r2 = "\<lparr>col_Unnamed_0 = 2, col_Sequence = ''GA'', col_Domain = ''1abcA00''\<rparr>"
  let ?w1 = "\<lparr>fs = [(''d'', Dir)], stdout = [], http_log = [''https://files.rcsb.org/download/9zzz.pdb'']\<rparr>"
  let ?w2 = "\<lparr>fs = [(''d'', Dir), (''d/2_1abc.pdb'', File '' ALAWHOH GLY CYS''),
                    (''d/2_1abc_trimmed.pdb'', File '' GLY'')],
       stdout = [], http_log = [''https://files.rcsb.org/download/1abc.pdb'']\<rparr>"
  let ?w3 = "\<lparr>fs = [], stdout = [], http_log = [''https://files.rcsb.org/download/1abc.pdb'']\<rparr>"
  have i1: "py_index (col_Domain ?r1) 4 = Inr CHR ''A''" by code_simp
  have m1: "py_int (drop 5 (col_Domain ?r1)) = Inr 0" by code_simp
  have t1: "download_try demo_extern (col_Unnamed_0 ?r1) (clean_sequence (col_Sequence ?r1))
              (take 4 (col_Domain ?r1)) CHR ''A'' 0 (row_url ?r1) ''d'' dir_world =
            (Inl (HTTPError ''404 Client Error: Not Found for url: https://files.rcsb.org/download/9zzz.pdb''), ?w1)"
    by code_simp
  have i2: "py_index (col_Domain ?r2) 4 = Inr CHR ''A''" by code_simp
  have m2: "py_int (drop 5 (col_Domain ?r2)) = Inr 0" by code_simp
  have t2: "download_try demo_extern (col_Unnamed_0 ?r2) (clean_sequence (col_Sequence ?r2))
              (take 4 (col_Domain ?r2)) CHR ''A'' 0 (row_url ?r2) ''d'' dir_world =
            (Inl (ValueError (mismatch_message ''d/2_1abc.pdb'' ''GA'' ''G'' ''AXGC'')), ?w2)"
    by code_simp
  have t3: "download_try demo_extern (col_Unnamed_0 ?r2) (clean_sequence (col_Sequence ?r2))
              (take 4 (col_Domain ?r2)) CHR ''A'' 0 (row_url ?r2) ''d'' empty_world =
            (Inl (OSError ''No such file or directory: d/2_1abc.pdb''), ?w3)"
    by code_simp
  from download_and_trim_pdb_catches[OF i1 m1, of demo_extern "''d''" dir_world] t1
  have 1: "download_and_trim_pdb demo_extern ?r1 ''d'' dir_world =
     (Inr \<lparr>sequence_id = 1, pdb_file = None\<rparr>,
      print (handler_line (HTTPError ''404 Client Error: Not Found for url: https://files.rcsb.org/download/9zzz.pdb'')) ?w1)"
    by simp
  from download_and_trim_pdb_catches[OF i2 m2, of demo_extern "''d''" dir_world] t2
  have 2: "download_and_trim_pdb demo_extern ?r2 ''d'' dir_world =
     (Inr \<lparr>sequence_id = 2, pdb_file = None\<rparr>,
      print (handler_line (ValueError (mismatch_message ''d/2_1abc.pdb'' ''GA'' ''G'' ''AXGC''))) ?w2)"
    by simp
  from download_and_trim_pdb_catches[OF i2 m2, of demo_extern "''d''" empty_world] t3
  have 3: "download_and_trim_pdb demo_extern ?r2 ''d'' empty_world =
     (Inr \<lparr>sequence_id = 2, pdb_file = None\<rparr>,
      print (handler_line (OSError ''No such file or directory: d/2_1abc.pdb'')) ?w3)"
    by simp
  show ?thesis
    by (simp add: 1 2 3 print_def)
qed

theorem malformed_domain_propagates_witness:
  "download_and_trim_pdb demo_extern
      \<lparr>col_Unnamed_0 = 7, col_Sequence = ''AC'', col_Domain = ''1abc''\<rparr> ''d'' empty_world =
     (Inl (IndexError ''string index out of range''), empty_world) \<and>
   download_and_trim_pdb demo_extern
      \<lparr>col_Unnamed_0 = 8, col_Sequence = ''AC'', col_Domain = ''1abcA''\<rparr> ''d'' empty_world =
     (Inl (ValueError ''invalid literal for int() with base 10: ''), empty_world) \<and>
   fst (process_dataset demo_extern []
          [\<lparr>col_Unnamed_0 = 0, col_Sequence = ''AXG'', col_Domain = ''1abcA00''\<rparr>,
           \<lparr>col_Unnamed_0 = 8, col_Sequence = ''AC'', col_Domain = ''1abcA''\<rparr>]
          ''d'' ''q'' ''f'' empty_world) =
     Inl (ValueError ''invalid literal for int() with base 10: '')"
proof -
  let ?r7 = "\<lparr>col_Unnamed_0 = 7, col_Sequence = ''AC'', col_Domain = ''1abc''\<rparr>"
  let ?r8 = "\<lparr>col_Unnamed_0 = 8, col_Sequence = ''AC'', col_Domain = ''1abcA''\<rparr>"
  let ?data = "[\<lparr>col_Unnamed_0 = 0, col_Sequence = ''AXG'', col_Domain = ''1abcA00''\<rparr>, ?r8]"
  have h7: "length (col_Domain ?r7) < 6 \<or> (\<exists>e. py_int (drop 5 (col_Domain ?r7)) = Inl e)" by simp
  have h8: "length (col_Domain ?r8) < 6 \<or> (\<exists>e. py_int (drop 5 (col_Domain ?r8)) = Inl e)" by simp
  have mem: "?r8 \<in> set ?data" by simp
  have mk: "os_makedirs ''d'' empty_world = Inr (empty_world\<lparr>fs := [(''d'', Dir)]\<rparr>)" by code_simp
  from malformed_domain_propagates[OF h7, of demo_extern "''d''" empty_world]
  have g7: "\<exists>m. download_and_trim_pdb demo_extern ?r7 ''d'' empty_world = (Inl (IndexError m), empty_world) \<or>
              download_and_trim_pdb demo_extern ?r7 ''d'' empty_world = (Inl (ValueError m), empty_world)"
    by blast
  from malformed_domain_propagates[OF h8, of demo_extern "''d''" empty_world] mem mk
  have g8: "\<exists>m w'. process_dataset demo_extern [] ?data ''d'' ''q'' ''f'' empty_world = (Inl (IndexError m), w') \<or>
                    process_dataset demo_extern [] ?data ''d'' ''q'' ''f'' empty_world = (Inl (ValueError m), w')"
    by blast
  have e7: "download_and_trim_pdb demo_extern ?r7 ''d'' empty_world =
     (Inl (IndexError ''string index out of range''), empty_world)" by code_simp
  have e8: "download_and_trim_pdb demo_extern ?r8 ''d'' empty_world =
     (Inl (ValueError ''invalid literal for int() with base 10: ''), empty_world)" by code_simp
  have e9: "fst (process_dataset demo_extern [] ?data ''d'' ''q'' ''f'' empty_world) =
     Inl (ValueError ''invalid literal for int() with base 10: '')" by code_simp
  show ?thesis using g7 g8 e7 e8 e9 by simp
qed

theorem http_get_at_most_once_witness:
  "download_and_trim_pdb demo_extern
      \<lparr>col_Unnamed_0 = 1, col_Sequence = ''AC'', col_Domain = ''9zzzA00''\<rparr> ''d'' empty_world =
     (Inr \<lparr>sequence_id = 1, pdb_file = None\<rparr>,
      \<lparr>fs = [],
       stdout = [''HTTP request failed: 404 Client Error: Not Found for url: https://files.rcsb.org/download/9zzz.pdb''],
       http_log = [''https://files.rcsb.org/download/9zzz.pdb'']\<rparr>) \<and>
   http_log (snd (process_dataset demo_extern [] demo_rows ''d'' ''q'' ''f'' empty_world)) =
     [''https://files.rcsb.org/download/1abc.pdb'', ''https://files.rcsb.org/download/9zzz.pdb'',
      ''https://files.rcsb.org/download/1abc.pdb'']"
proof -
  let ?r1 = "\<lparr>col_Unnamed_0 = 1, col_Sequence = ''AC'', col_Domain = ''9zzzA00''\<rparr>"
  let ?resp = "\<lparr>status_code = 404, reason = ''Not Found'', resp_text = []\<rparr>"
  let ?msg = "''404 Client Error: Not Found for url: https://files.rcsb.org/download/9zzz.pdb''"
  have i1: "py_index (col_Domain ?r1) 4 = Inr CHR ''A''" by code_simp
  have m1: "py_int (drop 5 (col_Domain ?r1)) = Inr 0" by code_simp
  have g: "http_get demo_extern (row_url ?r1) = Inr ?resp" by code_simp
  have s: "raise_for_status (row_url ?r1) ?resp = Inl (HTTPError ?msg)" by code_simp
  from http_get_at_most_once[of demo_extern ?r1 "''d''" empty_world demo_rows "[]" "''q''" "''f''"] i1 m1 g s
  have 1: "download_and_trim_pdb demo_extern ?r1 ''d'' empty_world =
        (Inr \<lparr>sequence_id = col_Unnamed_0 ?r1, pdb_file = None\<rparr>,
         print (handler_line (HTTPError ?msg)) (empty_world\<lparr>http_log := http_log empty_world @ [row_url ?r1]\<rparr>))"
    by blast
  have 2: "print (handler_line (HTTPError ?msg)) (empty_world\<lparr>http_log := http_log empty_world @ [row_url ?r1]\<rparr>)
      = \<lparr>fs = [], stdout = [''HTTP request failed: 404 Client Error: Not Found for url: https://files.rcsb.org/download/9zzz.pdb''],
       http_log = [''https://files.rcsb.org/download/9zzz.pdb'']\<rparr>" by code_simp
  have 3: "http_log (snd (process_dataset demo_extern [] demo_rows ''d'' ''q'' ''f'' empty_world)) =
     [''https://files.rcsb.org/download/1abc.pdb'', ''https://files.rcsb.org/download/9zzz.pdb'',
      ''https://files.rcsb.org/download/1abc.pdb'']" by code_simp
  show ?thesis using 1 2 3 by simp
qed

theorem process_dataset_one_record_per_row_witness:
  "list_all (\<lambda>r. well_formed_domain (col_Domain r)) demo_rows \<and>
   fst (process_dataset_download demo_extern [] demo_rows ''d'' empty_world) =
     Inr [\<lparr>sequence_id = 0, pdb_file = Some ''d/0_1abc_trimmed.pdb''\<rparr>,
          \<lparr>sequence_id = 1, pdb_file = None\<rparr>, \<lparr>sequence_id = 2, pdb_file = None\<rparr>] \<and>
   fst (process_dataset_download demo_extern [2, 0, 0] demo_rows ''d'' empty_world) =
     Inr [\<lparr>sequence_id = 2, pdb_file = None\<rparr>,
          \<lparr>sequence_id = 0, pdb_file = Some ''d/0_1abc_trimmed.pdb''\<rparr>,
          \<lparr>sequence_id = 1, pdb_file = None\<rparr>]"
proof -
  have wf: "\<forall>r\<in>set demo_rows. well_formed_domain (col_Domain r)" by code_simp
  have mk: "os_makedirs ''d'' empty_world = Inr (empty_world\<lparr>fs := [(''d'', Dir)]\<rparr>)" by code_simp
  from process_dataset_one_record_per_row[OF wf mk, of demo_extern "[2, 0, 0]"]
  have "\<exists>results peak w1.
     run_pool demo_extern ''d'' [2, 0, 0] demo_rows [] [] 0 (empty_world\<lparr>fs := [(''d'', Dir)]\<rparr>) =
       (map Inr results, peak, w1) \<and> peak \<le> max_workers"
    by blast
  moreover have "fst (process_dataset_download demo_extern [] demo_rows ''d'' empty_world) =
     Inr [\<lparr>sequence_id = 0, pdb_file = Some ''d/0_1abc_trimmed.pdb''\<rparr>,
          \<lparr>sequence_id = 1, pdb_file = None\<rparr>, \<lparr>sequence_id = 2, pdb_file = None\<rparr>]" by code_simp
  moreover have "fst (process_dataset_download demo_extern [2, 0, 0] demo_rows ''d'' empty_world) =
     Inr [\<lparr>sequence_id = 2, pdb_file = None\<rparr>,
          \<lparr>sequence_id = 0, pdb_file = Some ''d/0_1abc_trimmed.pdb''\<rparr>,
          \<lparr>sequence_id = 1, pdb_file = None\<rparr>]" by code_simp
  ultimately show ?thesis using wf by (simp add: list_all_iff)
qed

section \<open>The Train dataset in main\<close>

lemma fs_write_map_of:
  "fs_write p c w = Inr w' \<Longrightarrow> map_of (fs w') = (map_of (fs w))(p \<mapsto> File c)"
  by (auto simp: fs_write_def update_conv' split: option.splits node.splits if_splits)

lemma os_remove_map_of:
  "os_remove p w = Inr w' \<Longrightarrow> map_of (fs w') = (map_of (fs w))(p := None)"
  by (auto simp: os_remove_def delete_conv' split: option.splits node.splits)

lemma fs_read_iff: "fs_read p w = Inr c \<longleftrightarrow> map_of (fs w) p = Some (File c)"
  by (auto simp: fs_read_def split: option.splits node.splits)

lemma train_name: "split_dot_first (os_path_basename ''./data/Dataset/csv/Train.csv'') = ''Train''"
  by code_simp

lemma main_train_unfold:
  "main E sched DS_train w =
     (case process_csv E (sched ''./data/Dataset/csv/Train.csv'') ''./data/Dataset/csv/Train.csv'' w of
        (Inl e, w1) \<Rightarrow> (Inl e, w1)
      | (Inr u, w1) \<Rightarrow> (Inr (), w1))"
  by (simp add: main_def datasets_to_process_def split: prod.splits sum.splits)

lemma main_train_normal_return:
  assumes csv: "fs_read ''./data/Dataset/csv/Train.csv'' w = Inr txt"
    and data: "read_csv E txt = Inr data"
    and ret: "main E sched DS_train w = (Inr (), w')"
  shows "\<exists>w1 w2 first_text second_text.
     length (take (length data div 2) data) = length data div 2 \<and>
     take (length data div 2) data @ drop (length data div 2) data = data \<and>
     process_dataset E (fst (sched ''./data/Dataset/csv/Train.csv'')) (take (length data div 2) data)
       ''./data/pdb_files/Train_first'' ''./data/pdb_files/Train_first_queryDB''
       ''./data/Dataset/3Di/Train_first.fasta'' w = (Inr (), w1) \<and>
     process_dataset E (snd (sched ''./data/Dataset/csv/Train.csv'')) (drop (length data div 2) data)
       ''./data/pdb_files/Train_second'' ''./data/pdb_files/Train_second_queryDB''
       ''./data/Dataset/3Di/Train_second.fasta'' w1 = (Inr (), w2) \<and>
     fs_read ''./data/Dataset/3Di/Train_first.fasta'' w2 = Inr first_text \<and>
     fs_read ''./data/Dataset/3Di/Train_second.fasta'' w2 = Inr second_text \<and>
     fs_read ''./data/Dataset/3Di/Train.fasta'' w' = Inr (first_text @ second_text) \<and>
     map_of (fs w') ''./data/Dataset/3Di/Train_first.fasta'' = None \<and>
     map_of (fs w') ''./data/Dataset/3Di/Train_second.fasta'' = None"
proof -
  let ?csv = "''./data/Dataset/csv/Train.csv''"
  let ?first = "''./data/Dataset/3Di/Train_first.fasta''"
  let ?second = "''./data/Dataset/3Di/Train_second.fasta''"
  let ?final = "''./data/Dataset/3Di/Train.fasta''"
  from ret have pc: "process_csv E (sched ?csv) ?csv w = (Inr (), w')"
    by (auto simp: main_train_unfold split: prod.splits sum.splits)
  from pc obtain w1 w2 w3 w4 w5 w6 w7 a b where
    p1: "process_dataset E (fst (sched ?csv)) (take (length data div 2) data)
       ''./data/pdb_files/Train_first'' ''./data/pdb_files/Train_first_queryDB'' ?first w = (Inr (), w1)"
    and p2: "process_dataset E (snd (sched ?csv)) (drop (length data div 2) data)
       ''./data/pdb_files/Train_second'' ''./data/pdb_files/Train_second_queryDB'' ?second w1 = (Inr (), w2)"
    and s3: "fs_write ?final [] w2 = Inr w3"
    and s4: "fs_read ?first w3 = Inr a"
    and s5: "fs_write ?final a w3 = Inr w4"
    and s6: "fs_read ?second w4 = Inr b"
    and s7: "fs_write ?final (a @ b) w4 = Inr w5"
    and s8: "os_remove ?first w5 = Inr w6"
    and s9: "os_remove ?second w6 = Inr w7"
    and s10: "w' = print (''Merged FASTA file created at '' @ ?final) w7"
    using csv data unfolding process_csv_def train_name Let_def
    by (auto split: prod.splits sum.splits)
  have m3: "map_of (fs w3) = (map_of (fs w2))(?final \<mapsto> File [])" using s3 by (rule fs_write_map_of)
  have m4: "map_of (fs w4) = (map_of (fs w3))(?final \<mapsto> File a)" using s5 by (rule fs_write_map_of)
  have m5: "map_of (fs w5) = (map_of (fs w4))(?final \<mapsto> File (a @ b))" using s7 by (rule fs_write_map_of)
  have m6: "map_of (fs w6) = (map_of (fs w5))(?first := None)" using s8 by (rule os_remove_map_of)
  have m7: "map_of (fs w7) = (map_of (fs w6))(?second := None)" using s9 by (rule os_remove_map_of)
  have ra: "fs_read ?first w2 = Inr a"
    using s4 by (simp add: fs_read_iff m3)
  have rb: "fs_read ?second w2 = Inr b"
    using s6 by (simp add: fs_read_iff m4 m3)
  have rf: "fs_read ?final w' = Inr (a @ b)"
    by (simp add: fs_read_iff s10 m7 m6 m5)
  have n1: "map_of (fs w') ?first = None" by (simp add: s10 m7 m6)
  have n2: "map_of (fs w') ?second = None" by (simp add: s10 m7)
  show ?thesis
    using p1 p2 ra rb rf n1 n2 by auto
qed


lemma fs_write_succeeds:
  "map_of (fs w) p \<noteq> Some Dir \<Longrightarrow> dir_exists (os_path_dirname p) w \<Longrightarrow>
   \<exists>w'. fs_write p c w = Inr w'"
  by (auto simp: fs_write_def split: option.splits node.splits)

lemma dir_exists_below:
  "map_of (fs w) p = Some n \<Longrightarrow> below d p \<Longrightarrow> dir_exists d w"
  by (auto simp: dir_exists_def list_ex_iff dest!: map_of_SomeD)

lemma fasta_dir:
  "below (os_path_dirname ''./data/Dataset/3Di/Train.fasta'') ''./data/Dataset/3Di/Train_first.fasta''"
  "below (os_path_dirname ''./data/Dataset/3Di/Train.fasta'') ''./data/Dataset/3Di/Train.fasta''"
  by code_simp+

lemma os_remove_succeeds:
  "map_of (fs w) p = Some (File c) \<Longrightarrow> \<exists>w'. os_remove p w = Inr w'"
  by (auto simp: os_remove_def)

lemma main_train_returns:
  assumes csv: "fs_read ''./data/Dataset/csv/Train.csv'' w = Inr txt"
    and data: "read_csv E txt = Inr data"
    and p1: "process_dataset E (fst (sched ''./data/Dataset/csv/Train.csv'')) (take (length data div 2) data)
       ''./data/pdb_files/Train_first'' ''./data/pdb_files/Train_first_queryDB''
       ''./data/Dataset/3Di/Train_first.fasta'' w = (Inr (), w1)"
    and p2: "process_dataset E (snd (sched ''./data/Dataset/csv/Train.csv'')) (drop (length data div 2) data)
       ''./data/pdb_files/Train_second'' ''./data/pdb_files/Train_second_queryDB''
       ''./data/Dataset/3Di/Train_second.fasta'' w1 = (Inr (), w2)"
    and ra: "fs_read ''./data/Dataset/3Di/Train_first.fasta'' w2 = Inr a"
    and rb: "fs_read ''./data/Dataset/3Di/Train_second.fasta'' w2 = Inr b"
    and nd: "map_of (fs w2) ''./data/Dataset/3Di/Train.fasta'' \<noteq> Some Dir"
  shows "\<exists>w'. main E sched DS_train w = (Inr (), w')"
proof -
  let ?first = "''./data/Dataset/3Di/Train_first.fasta''"
  let ?second = "''./data/Dataset/3Di/Train_second.fasta''"
  let ?final = "''./data/Dataset/3Di/Train.fasta''"
  have d2: "dir_exists (os_path_dirname ?final) w2"
    using ra fasta_dir(1) by (auto simp: fs_read_iff intro: dir_exists_below)
  from fs_write_succeeds[OF nd d2] obtain w3 where s3: "fs_write ?final [] w2 = Inr w3" by blast
  note m3 = fs_write_map_of[OF s3]
  have s4: "fs_read ?first w3 = Inr a" using ra by (simp add: fs_read_iff m3)
  have n3: "map_of (fs w3) ?final \<noteq> Some Dir" by (simp add: m3)
  have d3: "dir_exists (os_path_dirname ?final) w3"
    using fasta_dir(2) by (auto simp: m3 intro: dir_exists_below)
  from fs_write_succeeds[OF n3 d3] obtain w4 where s5: "fs_write ?final a w3 = Inr w4" by blast
  note m4 = fs_write_map_of[OF s5]
  have s6: "fs_read ?second w4 = Inr b" using rb by (simp add: fs_read_iff m4 m3)
  have n4: "map_of (fs w4) ?final \<noteq> Some Dir" by (simp add: m4)
  have d4: "dir_exists (os_path_dirname ?final) w4"
    using fasta_dir(2) by (auto simp: m4 intro: dir_exists_below)
  from fs_write_succeeds[OF n4 d4] obtain w5 where s7: "fs_write ?final (a @ b) w4 = Inr w5" by blast
  note m5 = fs_write_map_of[OF s7]
  have "map_of (fs w5) ?first = Some (File a)" using ra by (simp add: fs_read_iff m5 m4 m3)
  from os_remove_succeeds[OF this] obtain w6 where s8: "os_remove ?first w5 = Inr w6" by blast
  note m6 = os_remove_map_of[OF s8]
  have "map_of (fs w6) ?second = Some (File b)" using rb by (simp add: fs_read_iff m6 m5 m4 m3)
  from os_remove_succeeds[OF this] obtain w7 where s9: "os_remove ?second w6 = Inr w7" by blast
  show ?thesis
    unfolding main_train_unfold process_csv_def train_name Let_def
    by (simp add: csv data p1 p2 s3 s4 s5 s6 s7 s8 s9)
qed

text \<open>
  C4: when \<open>main\<close> returns normally for the Train dataset of \<open>n\<close> rows, it has processed
  the first \<open>n div 2\<close> rows and then the remaining rows (two halves whose concatenation
  is the dataset) with \<open>process_dataset\<close>, the final Train FASTA file holds the text of
  the first half's FASTA file followed by the second half's, and the two intermediate
  FASTA files are gone. And \<open>main\<close> does return normally when both calls of
  \<open>process_dataset\<close> do, both FASTA files exist after them and the final path is not a
  directory.
\<close>

theorem main_train_merges_halves:
  assumes "fs_read ''./data/Dataset/csv/Train.csv'' w = Inr txt"
    and "read_csv E txt = Inr data"
  shows "(main E sched DS_train w = (Inr (), w') \<longrightarrow>
     (\<exists>w1 w2 first_text second_text.
       length (take (length data div 2) data) = length data div 2 \<and>
       take (length data div 2) data @ drop (length data div 2) data = data \<and>
       process_dataset E (fst (sched ''./data/Dataset/csv/Train.csv'')) (take (length data div 2) data)
         ''./data/pdb_files/Train_first'' ''./data/pdb_files/Train_first_queryDB''
         ''./data/Dataset/3Di/Train_first.fasta'' w = (Inr (), w1) \<and>
       process_dataset E (snd (sched ''./data/Dataset/csv/Train.csv'')) (drop (length data div 2) data)
         ''./data/pdb_files/Train_second'' ''./data/pdb_files/Train_second_queryDB''
         ''./data/Dataset/3Di/Train_second.fasta'' w1 = (Inr (), w2) \<and>
       fs_read ''./data/Dataset/3Di/Train_first.fasta'' w2 = Inr first_text \<and>
       fs_read ''./data/Dataset/3Di/Train_second.fasta'' w2 = Inr second_text \<and>
       fs_read ''./data/Dataset/3Di/Train.fasta'' w' = Inr (first_text @ second_text) \<and>
       map_of (fs w') ''./data/Dataset/3Di/Train_first.fasta'' = None \<and>
       map_of (fs w') ''./data/Dataset/3Di/Train_second.fasta'' = None)) \<and>
   (\<forall>w1 w2 first_text second_text.
       process_dataset E (fst (sched ''./data/Dataset/csv/Train.csv'')) (take (length data div 2) data)
         ''./data/pdb_files/Train_first'' ''./data/pdb_files/Train_first_queryDB''
         ''./data/Dataset/3Di/Train_first.fasta'' w = (Inr (), w1) \<longrightarrow>
       process_dataset E (snd (sched ''./data/Dataset/csv/Train.csv'')) (drop (length data div 2) data)
         ''./data/pdb_files/Train_second'' ''./data/pdb_files/Train_second_queryDB''
         ''./data/Dataset/3Di/Train_second.fasta'' w1 = (Inr (), w2) \<longrightarrow>
       fs_read ''./data/Dataset/3Di/Train_first.fasta'' w2 = Inr first_text \<longrightarrow>
       fs_read ''./data/Dataset/3Di/Train_second.fasta'' w2 = Inr second_text \<longrightarrow>
       map_of (fs w2) ''./data/Dataset/3Di/Train.fasta'' \<noteq> Some Dir \<longrightarrow>
       (\<exists>w''. main E sched DS_train w = (Inr (), w'')))"
  using main_train_normal_return[OF assms] main_train_returns[OF assms]
  by blast

theorem main_train_merges_halves_witness:
  "(case main demo_extern (\<lambda>csv_file. ([], [])) DS_train train_world of
      (x, w') \<Rightarrow> (x, fs_read ''./data/Dataset/3Di/Train.fasta'' w',
                  map_of (fs w') ''./data/Dataset/3Di/Train_first.fasta'')) =
   (Inr (),
    Inr ((''>./data/pdb_files/Train_first_queryDB_ss'' @ [CHR 0x0A]) @
         (''>./data/pdb_files/Train_second_queryDB_ss'' @ [CHR 0x0A])),
    None)"
proof -
  obtain x w' where ret: "main demo_extern (\<lambda>csv_file. ([], [])) DS_train train_world = (x, w')"
    by force
  have csv: "fs_read ''./data/Dataset/csv/Train.csv'' train_world = Inr ''csv''" by code_simp
  have data: "read_csv demo_extern ''csv'' = Inr demo_rows" by code_simp
  have ev: "(case main demo_extern (\<lambda>csv_file. ([], [])) DS_train train_world of
      (x, w') \<Rightarrow> (x, fs_read ''./data/Dataset/3Di/Train.fasta'' w')) =
    (Inr (),
     Inr ((''>./data/pdb_files/Train_first_queryDB_ss'' @ [CHR 0x0A]) @
          (''>./data/pdb_files/Train_second_queryDB_ss'' @ [CHR 0x0A])))"
    by code_simp
  then have x: "x = Inr ()" by (simp add: ret)
  from main_train_merges_halves[OF csv data, of "\<lambda>csv_file. ([], [])" w'] ret[unfolded x]
  have "map_of (fs w') ''./data/Dataset/3Di/Train_first.fasta'' = None" by blast
  with ev show ?thesis by (simp add: ret)
qed

section \<open>A failing foldseek command\<close>

lemma run_command_raises:
  "returncode (fst (shell E command (fs w))) \<noteq> 0 \<Longrightarrow>
   fst (run_command E command w) = Inl (OtherException ''Command failed'')"
  by (auto simp: run_command_def split: prod.splits)

lemma run_command_ok:
  "returncode (fst (shell E command (fs w))) = 0 \<Longrightarrow>
   run_command E command w =
     (Inr (proc_stdout (fst (shell E command (fs w)))), w\<lparr>fs := snd (shell E command (fs w))\<rparr>)"
  by (auto simp: run_command_def split: prod.splits)

lemma foldseek_createdb_failure:
  assumes "returncode (fst (shell E (''foldseek createdb '' @ output_dir @ '' '' @ query_db) (fs w))) \<noteq> 0"
  shows "process_dataset_foldseek E output_dir query_db query_db_ss_fasta w =
           print ''An error occurred: Command failed''
             (snd (run_command E (''foldseek createdb '' @ output_dir @ '' '' @ query_db) w))"
  using run_command_raises[OF assms]
  by (auto simp: process_dataset_foldseek_def split: prod.splits sum.splits)

lemma cleanup_missing_file:
  "map_of (fs w) (query_db @ ''_a3m'') = None \<Longrightarrow>
   process_dataset_cleanup output_dir query_db w =
     (Inl (OSError (''No such file or directory: '' @ query_db @ ''_a3m'')), w)"
  by (simp add: process_dataset_cleanup_def os_remove_def)

text \<open>
  C3: \<open>run_command\<close> raises on a non-zero return code and the handler of
  \<open>process_dataset\<close> prints the exception (the lemmas above). The removals that follow
  are not guarded: with a foldseek that is not installed no database file exists, the
  first \<open>os.remove\<close> raises, and \<open>process_dataset\<close> ends with that error while every
  downloaded PDB file is still in \<open>output_dir\<close>.
\<close>

theorem process_dataset_aborts_when_foldseek_fails:
  "(case process_dataset no_foldseek_extern [] demo_rows ''d'' ''q'' ''f'' empty_world of
      (x, w') \<Rightarrow> (x, map fst (fs w'), drop 3 (stdout w'))) =
   (Inl (OSError ''No such file or directory: q_a3m''),
    [''d'', ''d/0_1abc_trimmed.pdb'', ''d/2_1abc.pdb'', ''d/2_1abc_trimmed.pdb'',
     ''d/directly_saved_pdb_idx.csv''],
    [''Error running command: foldseek createdb d q'', ''foldseek: not found'',
     ''An error occurred: Command failed''])"
  by code_simp

section \<open>Properties of predict_embed.py\<close>

lemma parse_args_attributes:
  "parse_args model_arg input_type_arg = Some args \<Longrightarrow>
   map fst args = [''model'', ''input_type''] \<and>
   getattr args ''input_type'' = Inr (case input_type_arg of None \<Rightarrow> ''AA'' | Some v \<Rightarrow> v) \<and>
   getattr args ''pdb_path'' = Inl (AttributeError ''Namespace object has no attribute pdb_path'')"
  by (auto simp: parse_args_def getattr_def Let_def split: if_splits)

text \<open>
  C5, as stated, fails: with \<open>--input_type AA+3Di\<close> the invocation does not always raise
  AttributeError. When \<open>embed_sequence\<close> raises (here: no \<open>Dataset.csv\<close>), that exception
  leaves \<open>main\<close> before \<open>args.pdb_path\<close> is evaluated.
\<close>

theorem main_predict_embed_AA_3Di_counterexample:
  "main_predict_embed failing_embed_sequence demo_embed_3Di (Some ''ProstT5'') (Some ''AA+3Di'')
     empty_world =
   Some (Inl (OSError ''No such file or directory: ./src/cathe-predict/Dataset.csv''),
         \<lparr>fs = [], stdout = [''Loading ProtT5 model. (can take a few minutes)''], http_log = []\<rparr>)"
  by code_simp

text \<open>
  C5, amended: for an invocation with \<open>--input_type AA+3Di\<close> that argparse accepts, \<open>main\<close>
  calls \<open>embed_sequence\<close>; if that raises, the exception leaves \<open>main\<close>; if it returns,
  \<open>main\<close> evaluates \<open>args.pdb_path\<close>, which the parser does not define, and raises
  AttributeError. In every case the result does not depend on \<open>embed_3Di\<close> (it is never
  reached) and \<open>main\<close> never returns normally.
\<close>

theorem main_predict_embed_AA_3Di:
  assumes "parse_args model_arg (Some ''AA+3Di'') = Some args"
  shows "(\<forall>w1. embed_sequence w = (Inr (), w1) \<longrightarrow>
            main_predict_embed embed_sequence embed_3Di model_arg (Some ''AA+3Di'') w =
              Some (Inl (AttributeError ''Namespace object has no attribute pdb_path''), w1)) \<and>
         (\<forall>e w1. embed_sequence w = (Inl e, w1) \<longrightarrow>
            main_predict_embed embed_sequence embed_3Di model_arg (Some ''AA+3Di'') w =
              Some (Inl e, w1)) \<and>
         (\<forall>other_embed_3Di.
            main_predict_embed embed_sequence other_embed_3Di model_arg (Some ''AA+3Di'') w =
            main_predict_embed embed_sequence embed_3Di model_arg (Some ''AA+3Di'') w) \<and>
         (\<forall>w'. main_predict_embed embed_sequence embed_3Di model_arg (Some ''AA+3Di'') w \<noteq>
                 Some (Inr (), w'))"
  using parse_args_attributes[OF assms]
  by (auto simp: main_predict_embed_def assms split: sum.splits prod.splits)

theorem main_predict_embed_AA_3Di_witness:
  "main_predict_embed demo_embed_sequence demo_embed_3Di (Some ''ProstT5'') (Some ''AA+3Di'')
     empty_world =
   Some (Inl (AttributeError ''Namespace object has no attribute pdb_path''),
         \<lparr>fs = [], stdout = [''Doing 0 1''], http_log = []\<rparr>) \<and>
   main_predict_embed failing_embed_sequence demo_embed_3Di None (Some ''AA+3Di'') empty_world =
   Some (Inl (OSError ''No such file or directory: ./src/cathe-predict/Dataset.csv''),
         \<lparr>fs = [], stdout = [''Loading ProtT5 model. (can take a few minutes)''], http_log = []\<rparr>)"
proof -
  have p: "parse_args (Some ''ProstT5'') (Some ''AA+3Di'') =
             Some [(''model'', ''ProstT5''), (''input_type'', ''AA+3Di'')]"
    by code_simp
  have q: "parse_args None (Some ''AA+3Di'') =
             Some [(''model'', ''ProtT5''), (''input_type'', ''AA+3Di'')]"
    by code_simp
  have e: "demo_embed_sequence empty_world =
             (Inr (), \<lparr>fs = [], stdout = [''Doing 0 1''], http_log = []\<rparr>)"
    by code_simp
  have f: "failing_embed_sequence empty_world =
             (Inl (OSError ''No such file or directory: ./src/cathe-predict/Dataset.csv''),
              \<lparr>fs = [], stdout = [''Loading ProtT5 model. (can take a few minutes)''], http_log = []\<rparr>)"
    by code_simp
  from main_predict_embed_AA_3Di[OF p, of demo_embed_sequence empty_world demo_embed_3Di] e
  have 1: "main_predict_embed demo_embed_sequence demo_embed_3Di (Some ''ProstT5'') (Some ''AA+3Di'')
     empty_world =
   Some (Inl (AttributeError ''Namespace object has no attribute pdb_path''),
         \<lparr>fs = [], stdout = [''Doing 0 1''], http_log = []\<rparr>)"
    by blast
  from main_predict_embed_AA_3Di[OF q, of failing_embed_sequence empty_world demo_embed_3Di] f
  have 2: "main_predict_embed failing_embed_sequence demo_embed_3Di None (Some ''AA+3Di'') empty_world =
   Some (Inl (OSError ''No such file or directory: ./src/cathe-predict/Dataset.csv''),
         \<lparr>fs = [], stdout = [''Loading ProtT5 model. (can take a few minutes)''], http_log = []\<rparr>)"
    by blast
  show ?thesis using 1 2 by simp
qed

section \<open>Properties of logreg_prott5.py\<close>

lemma append_other_eq: "append_other n y = y @ replicate n ''other''"
  by (induction n arbitrary: y) (simp_all add: replicate_app_Cons_same)

lemma load_split_eq:
  "width X = width X_other \<Longrightarrow>
   load_split y X X_other =
     Inr (\<lparr>width = width X, rows = rows X @ rows X_other\<rparr>, y @ replicate (length (rows X_other)) ''other'')"
  by (simp add: load_split_def np_concatenate_def append_other_eq)

lemma load_split_Inr:
  "load_split y X X_other = Inr s \<Longrightarrow>
   s = (\<lparr>width = width X, rows = rows X @ rows X_other\<rparr>, y @ replicate (length (rows X_other)) ''other'')"
  by (auto simp: load_split_def np_concatenate_def append_other_eq split: if_splits)

lemma aligned_append:
  "length y = length (rows X) \<Longrightarrow>
   row_aligned y X X_other
     (\<lparr>width = width X, rows = rows X @ rows X_other\<rparr>, y @ replicate (length (rows X_other)) ''other'')"
  by (auto simp: row_aligned_def nth_append)

text \<open>
  C6: when each labels CSV has one row per embedding of its SF archive, every split
  the script has loaded (train, validation, test) is row-aligned: as many labels as
  embeddings, label \<open>i\<close> on embedding \<open>i\<close>, the SF labels in CSV order followed by one
  \<open>other\<close> per row of the other archive. The loading succeeds when the archives of each
  split have the same number of columns.
\<close>

theorem logreg_rows_aligned:
  assumes "length y_train = length (rows X_train)"
    and "length y_val = length (rows X_val)"
    and "length y_test = length (rows X_test)"
  shows "(logreg_prott5_load (y_train, X_train, X_train_other) (y_val, X_val, X_val_other)
            (y_test, X_test, X_test_other) = Inr (tr, va, te) \<longrightarrow>
          row_aligned y_train X_train X_train_other tr \<and>
          row_aligned y_val X_val X_val_other va \<and>
          row_aligned y_test X_test X_test_other te) \<and>
         (width X_train = width X_train_other \<and> width X_val = width X_val_other \<and>
          width X_test = width X_test_other \<longrightarrow>
          (\<exists>tr va te. logreg_prott5_load (y_train, X_train, X_train_other) (y_val, X_val, X_val_other)
            (y_test, X_test, X_test_other) = Inr (tr, va, te)))"
proof (intro conjI impI)
  assume "logreg_prott5_load (y_train, X_train, X_train_other) (y_val, X_val, X_val_other)
            (y_test, X_test, X_test_other) = Inr (tr, va, te)"
  then have "load_split y_train X_train X_train_other = Inr tr"
    "load_split y_val X_val X_val_other = Inr va"
    "load_split y_test X_test X_test_other = Inr te"
    by (auto simp: logreg_prott5_load_def split: sum.splits)
  then show "row_aligned y_train X_train X_train_other tr"
    "row_aligned y_val X_val X_val_other va"
    "row_aligned y_test X_test X_test_other te"
    using assms by (auto dest!: load_split_Inr intro: aligned_append)
next
  assume "width X_train = width X_train_other \<and> width X_val = width X_val_other \<and>
          width X_test = width X_test_other"
  then show "\<exists>tr va te. logreg_prott5_load (y_train, X_train, X_train_other) (y_val, X_val, X_val_other)
            (y_test, X_test, X_test_other) = Inr (tr, va, te)"
    by (simp add: logreg_prott5_load_def load_split_eq)
qed

theorem logreg_rows_aligned_witness:
  "logreg_prott5_load
     ([''a'', ''b''], \<lparr>width = 1, rows = [[1 :: int], [2]]\<rparr>, \<lparr>width = 1, rows = [[3]]\<rparr>)
     ([''a''], \<lparr>width = 1, rows = [[4]]\<rparr>, \<lparr>width = 1, rows = [[5], [6]]\<rparr>)
     ([], \<lparr>width = 1, rows = []\<rparr>, \<lparr>width = 1, rows = [[7]]\<rparr>) =
   Inr ((\<lparr>width = 1, rows = [[1], [2], [3]]\<rparr>, [''a'', ''b'', ''other'']),
        (\<lparr>width = 1, rows = [[4], [5], [6]]\<rparr>, [''a'', ''other'', ''other'']),
        (\<lparr>width = 1, rows = [[7]]\<rparr>, [''other''])) \<and>
   row_aligned [''a'', ''b''] \<lparr>width = 1, rows = [[1 :: int], [2]]\<rparr> \<lparr>width = 1, rows = [[3]]\<rparr>
     (\<lparr>width = 1, rows = [[1], [2], [3]]\<rparr>, [''a'', ''b'', ''other''])"
proof -
  have ev: "logreg_prott5_load
     ([''a'', ''b''], \<lparr>width = 1, rows = [[1 :: int], [2]]\<rparr>, \<lparr>width = 1, rows = [[3]]\<rparr>)
     ([''a''], \<lparr>width = 1, rows = [[4]]\<rparr>, \<lparr>width = 1, rows = [[5], [6]]\<rparr>)
     ([], \<lparr>width = 1, rows = []\<rparr>, \<lparr>width = 1, rows = [[7]]\<rparr>) =
   Inr ((\<lparr>width = 1, rows = [[1], [2], [3]]\<rparr>, [''a'', ''b'', ''other'']),
        (\<lparr>width = 1, rows = [[4], [5], [6]]\<rparr>, [''a'', ''other'', ''other'']),
        (\<lparr>width = 1, rows = [[7]]\<rparr>, [''other'']))"
    by (simp add: logreg_prott5_load_def load_split_def np_concatenate_def numeral_2_eq_2)
  have l1: "length [''a'', ''b''] = length (rows \<lparr>width = 1, rows = [[1 :: int], [2]]\<rparr>)" by simp
  have l2: "length [''a''] = length (rows \<lparr>width = 1, rows = [[4 :: int]]\<rparr>)" by simp
  have l3: "length ([] :: string list) = length (rows \<lparr>width = 1, rows = ([] :: int list list)\<rparr>)" by simp
  from logreg_rows_aligned[OF l1 l2 l3] ev
  show ?thesis by blast
qed

end
